theory Spec2Isabelle
  imports Complex_Main
begin

section \<open>The Iris controller node (iris_controller.py)\<close>

text \<open>
  The node polls twenty Modbus registers of the Iris board on every timer tick, derives a
  drive command from them and publishes a status message. Python floats are modelled as
  \<open>real\<close>, Python integers as \<open>int\<close>. The clock and the transport are inputs of a
  tick: what \<open>time()\<close> returned at each of its calls, and what
  \<open>minimalmodbus.Instrument.read_registers\<close> returned or that it raised.
\<close>

subsection \<open>Constants\<close>

definition SBUS_MAX :: int where "SBUS_MAX = 1811"
definition SBUS_MID :: int where "SBUS_MID = 991"
definition SBUS_MIN :: int where "SBUS_MIN = 172"
definition SBUS_RANGE :: real where "SBUS_RANGE = 820.0"
definition SBUS_DEADZONE :: int where "SBUS_DEADZONE = 5"

definition COMMUNICATIONS_TIMEOUT :: real where "COMMUNICATIONS_TIMEOUT = 0.15"
definition IRIS_LAST_SEEN_TIMEOUT :: real where "IRIS_LAST_SEEN_TIMEOUT = 1"

text \<open>The dictionary \<open>MODBUS_REGISTERS\<close>: register name to index.\<close>

definition LEFT_STICK_Y_AXIS :: nat where "LEFT_STICK_Y_AXIS = 0"
definition RIGHT_STICK_Y_AXIS :: nat where "RIGHT_STICK_Y_AXIS = 1"
definition RIGHT_STICK_X_AXIS :: nat where "RIGHT_STICK_X_AXIS = 2"
definition LEFT_STICK_X_AXIS :: nat where "LEFT_STICK_X_AXIS = 3"
definition LEFT_POT :: nat where "LEFT_POT = 4"
definition S1_POT :: nat where "S1_POT = 5"
definition S2_POT :: nat where "S2_POT = 6"
definition RIGHT_POT :: nat where "RIGHT_POT = 7"
definition SA_SWITCH :: nat where "SA_SWITCH = 8"
definition SB_SWITCH :: nat where "SB_SWITCH = 9"
definition SC_SWITCH :: nat where "SC_SWITCH = 10"
definition SD_SWITCH :: nat where "SD_SWITCH = 11"
definition SE_SWITCH :: nat where "SE_SWITCH = 12"
definition SF_SWITCH :: nat where "SF_SWITCH = 13"
definition SG_SWITCH :: nat where "SG_SWITCH = 14"
definition SH_SWITCH :: nat where "SH_SWITCH = 15"
definition VOLTAGE_24V :: nat where "VOLTAGE_24V = 16"
definition VOLTAGE_5V :: nat where "VOLTAGE_5V = 17"
definition USB_VOLTAGE_5V :: nat where "USB_VOLTAGE_5V = 18"
definition VOLTAGE_3V3 :: nat where "VOLTAGE_3V3 = 19"

text \<open>\<open>len(MODBUS_REGISTERS)\<close>, the number of registers one read asks for.\<close>

definition MODBUS_REGISTER_COUNT :: nat where "MODBUS_REGISTER_COUNT = 20"

text \<open>The dictionary \<open>REGISTER_STATE_MAPPING\<close>.\<close>

definition IGNORE_CONTROL :: nat where "IGNORE_CONTROL = SF_SWITCH"
definition DRIVE_VS_ARM :: nat where "DRIVE_VS_ARM = SE_SWITCH"

subsection \<open>Messages, exceptions and the node's state\<close>

text \<open>
  \<open>DriveCommandMessage\<close>: the two flags and the two components of \<open>drive_twist\<close> the
  node writes (\<open>linear.x\<close> and \<open>angular.z\<close>). \<open>IrisStatusMessage\<close>: the two fields
  the node writes.
\<close>

record drive_command_message =
  controller_present :: bool
  ignore_drive_control :: bool
  linear_x :: real
  angular_z :: real

record iris_status_message =
  iris_connected :: bool
  voltage_24v :: int

text \<open>
  The exceptions the two nodes can meet: a list index out of range, whatever the transport
  raises (a timeout, a checksum or an I/O error), and in the status node a failed
  conversion, a missing attribute, a division by zero and a failed system call.
\<close>

datatype py_exception =
    IndexError
  | TransportError
  | TypeError
  | ValueError
  | AttributeError
  | ZeroDivisionError
  | OSError

text \<open>What a tick sends out, in order: publications and printed lines.\<close>

datatype iris_output =
    Drive_command drive_command_message
  | Iris_status iris_status_message
  | Print_arm
  | Print_error py_exception
  | Print_exit

text \<open>
  The attributes of \<open>IrisController\<close> a tick reads or writes. \<open>node_destroyed\<close> records
  that \<open>destroy_node()\<close> has been called.
\<close>

record iris_controller =
  registers :: "int list"
  self_iris_connected :: bool
  iris_last_seen_time :: real
  node_destroyed :: bool

text \<open>
  The inputs of one tick: what came back on the bus, the registers of the response or the
  exception of the transport; the clock after a successful read; and the clock at the
  last-seen check that ends the tick.
\<close>

record iris_tick =
  read_result :: "py_exception + int list"
  t_read :: real
  t_end :: real

text \<open>\<open>__init__\<close>: no registers yet, not connected, last seen at the start time.\<close>

definition iris_init :: "real \<Rightarrow> iris_controller" where
  "iris_init t0 =
     \<lparr>registers = [], self_iris_connected = False, iris_last_seen_time = t0,
      node_destroyed = False\<rparr>"

subsection \<open>The operations\<close>

text \<open>\<open>self.registers[i]\<close> for an index that is not negative: out of range raises.\<close>

definition get_register :: "int list \<Rightarrow> nat \<Rightarrow> py_exception + int" where
  "get_register regs i = (if i < length regs then Inr (regs ! i) else Inl IndexError)"

text \<open>
  \<open>minimalmodbus.Instrument.read_registers(address, number_of_registers)\<close>, by its
  contract: it returns a list of exactly the number of registers asked for, and raises
  when the transport fails or the response does not hold that many registers.
\<close>

definition instrument_read_registers ::
    "py_exception + int list \<Rightarrow> nat \<Rightarrow> py_exception + int list" where
  "instrument_read_registers response number_of_registers =
     (case response of
        Inl e \<Rightarrow> Inl e
      | Inr regs \<Rightarrow>
          if length regs = number_of_registers then Inr regs else Inl TransportError)"

text \<open>
  \<open>read_registers\<close>: a successful read stores the registers and the time; a failed one
  is swallowed, and only clears the node's own \<open>iris_connected\<close> attribute.
\<close>

definition read_registers :: "iris_tick \<Rightarrow> iris_controller \<Rightarrow> iris_controller" where
  "read_registers inp s =
     (case instrument_read_registers (read_result inp) MODBUS_REGISTER_COUNT of
        Inr regs \<Rightarrow> s\<lparr>registers := regs, iris_last_seen_time := t_read inp\<rparr>
      | Inl e \<Rightarrow> s\<lparr>self_iris_connected := False\<rparr>)"

text \<open>\<open>broadcast_drive_if_current_mode\<close>: the outputs, or the exception it raises.\<close>

definition broadcast_drive_if_current_mode ::
    "iris_controller \<Rightarrow> py_exception + iris_output list" where
  "broadcast_drive_if_current_mode s =
     (case get_register (registers s) DRIVE_VS_ARM of
        Inl e \<Rightarrow> Inl e
      | Inr sw \<Rightarrow>
          if sw < SBUS_MID then
            (case get_register (registers s) LEFT_STICK_Y_AXIS of
               Inl e \<Rightarrow> Inl e
             | Inr left_y_axis \<Rightarrow>
                 (case get_register (registers s) RIGHT_STICK_Y_AXIS of
                    Inl e \<Rightarrow> Inl e
                  | Inr right_y_axis \<Rightarrow>
                      if left_y_axis = 0 \<and> right_y_axis = 0 then
                        Inr [Drive_command
                               \<lparr>controller_present = False, ignore_drive_control = True,
                                linear_x = 0, angular_z = 0\<rparr>]
                      else
                        (let left = (real_of_int (left_y_axis - SBUS_MID)) / SBUS_RANGE;
                             right = (real_of_int (right_y_axis - SBUS_MID)) / SBUS_RANGE
                         in case get_register (registers s) IGNORE_CONTROL of
                              Inl e \<Rightarrow> Inl e
                            | Inr ignore_sw \<Rightarrow>
                                Inr [Drive_command
                                       \<lparr>controller_present = True,
                                        ignore_drive_control = (ignore_sw > SBUS_MID),
                                        linear_x = (left + right) / 2,
                                        angular_z = (right - left) / 2\<rparr>])))
          else Inr [])"

text \<open>\<open>broadcast_arm_if_current_mode\<close>: prints \<open>Arm\<close> above the threshold.\<close>

definition broadcast_arm_if_current_mode ::
    "iris_controller \<Rightarrow> py_exception + iris_output list" where
  "broadcast_arm_if_current_mode s =
     (case get_register (registers s) DRIVE_VS_ARM of
        Inl e \<Rightarrow> Inl e
      | Inr sw \<Rightarrow> if sw > SBUS_MIN + SBUS_DEADZONE then Inr [Print_arm] else Inr [])"

text \<open>\<open>broadcast_iris_status\<close>: the flag is the constant \<open>True\<close>.\<close>

definition broadcast_iris_status :: "iris_controller \<Rightarrow> py_exception + iris_output list" where
  "broadcast_iris_status s =
     (case get_register (registers s) VOLTAGE_24V of
        Inl e \<Rightarrow> Inl e
      | Inr v \<Rightarrow> Inr [Iris_status \<lparr>iris_connected = True, voltage_24v = v\<rparr>])"

text \<open>
  The \<open>try\<close> block of \<open>main_loop\<close> after the read: the three broadcasts in order; the
  first exception stops the block, and the handler prints it. What was sent before the
  exception stays sent.
\<close>

definition try_broadcasts :: "iris_controller \<Rightarrow> iris_output list" where
  "try_broadcasts s =
     (case broadcast_drive_if_current_mode s of
        Inl e \<Rightarrow> [Print_error e]
      | Inr out_drive \<Rightarrow>
          (case broadcast_arm_if_current_mode s of
             Inl e \<Rightarrow> out_drive @ [Print_error e]
           | Inr out_arm \<Rightarrow>
               (case broadcast_iris_status s of
                  Inl e \<Rightarrow> out_drive @ out_arm @ [Print_error e]
                | Inr out_status \<Rightarrow> out_drive @ out_arm @ out_status)))"

text \<open>
  \<open>main_loop\<close>: the read, the broadcasts, then the last-seen check, which prints a
  line and calls \<open>destroy_node()\<close> when the Iris has not answered for more than the
  timeout. In both cases the callback then returns: it has no statement that raises,
  shuts the context down or leaves the interpreter.
\<close>

definition iris_main_loop ::
    "iris_tick \<Rightarrow> iris_controller \<Rightarrow> iris_controller \<times> iris_output list" where
  "iris_main_loop inp s =
     (let s1 = read_registers inp s;
          outs = try_broadcasts s1
      in if t_end inp - iris_last_seen_time s1 > IRIS_LAST_SEEN_TIMEOUT
         then (s1\<lparr>node_destroyed := True\<rparr>, outs @ [Print_exit])
         else (s1, outs))"


text \<open>Which outputs are publications of a drive command, of a status message.\<close>

fun is_drive_command :: "iris_output \<Rightarrow> bool" where
  "is_drive_command (Drive_command c) = True"
| "is_drive_command other = False"


section \<open>The system status node (system_statuses_node.py)\<close>

text \<open>
  The node keeps one message per status category, refreshes some of them on every timer
  tick, receives the others from subscriptions between ticks, and publishes a message
  when it differs from the values stored at its last publication. The declarations of the
  message types are not part of the sources: each message is modelled with the fields the
  node reads or writes. The battery voltage and the satellite count, which the node sets
  from integers, are \<open>int\<close>. The Jetson figures, which the node computes from counts
  and percentages, are \<open>real\<close>. The three float fields of the GPS message come out
  of the text of a sentence, where \<open>nan\<close> and \<open>inf\<close> are floats like any other, and
  are \<open>py_float\<close>.
\<close>

subsection \<open>Constants\<close>

definition MAX_JETSON_UPDATE_HERTZ :: real where "MAX_JETSON_UPDATE_HERTZ = 0.2"
definition MAX_IRIS_UPDATE_HERTZ :: real where "MAX_IRIS_UPDATE_HERTZ = 0.2"

definition DEFAULT_REQUEST_UPDATE_TOPIC_NAME :: string where
  "DEFAULT_REQUEST_UPDATE_TOPIC_NAME = ''update_requested''"
definition DEFAULT_IRIS_STATUS_TOPIC_NAME :: string where
  "DEFAULT_IRIS_STATUS_TOPIC_NAME = ''/rover_control/iris_status''"
definition DEFAULT_BOGIE_LEFT_TOPIC_NAME :: string where
  "DEFAULT_BOGIE_LEFT_TOPIC_NAME = ''/rover_control/drive_status/left''"
definition DEFAULT_BOGIE_RIGHT_TOPIC_NAME :: string where
  "DEFAULT_BOGIE_RIGHT_TOPIC_NAME = ''/rover_control/drive_status/right''"
definition DEFAULT_BOGIE_REAR_TOPIC_NAME :: string where
  "DEFAULT_BOGIE_REAR_TOPIC_NAME = ''/rover_control/drive_status/rear''"
definition DEFAULT_GPS_NMEA_TOPIC_NAME :: string where
  "DEFAULT_GPS_NMEA_TOPIC_NAME = ''/rover_odometry/gps/sentence''"

text \<open>The topic \<open>__set_frsky_controller_connection_status\<close> subscribes to.\<close>

definition IRIS_DRIVE_TOPIC_NAME :: string where
  "IRIS_DRIVE_TOPIC_NAME = ''/rover_control/command_control/iris_drive''"

text \<open>\<open>self.system_path_locations\<close> and \<open>self.file_systems_EMMC_NVMe_SSD\<close>.\<close>

definition system_path_locations :: "string list" where
  "system_path_locations =
     [''/dev/rover/camera_zed'', ''/dev/rover/camera_undercarriage'',
      ''/dev/rover/camera_chassis'', ''/dev/rover/camera_main_navigation'']"

definition file_systems_EMMC_NVMe_SSD :: "string list" where
  "file_systems_EMMC_NVMe_SSD = [''/'', ''/dev/shm'']"

subsection \<open>Messages\<close>

record battery_status_message =
  battery_voltage :: int

record camera_statuses =
  camera_zed :: bool
  camera_undercarriage :: bool
  camera_chassis :: bool
  camera_main_navigation :: bool

record wheel_statuses =
  front_left :: bool
  middle_left :: bool
  rear_left :: bool
  front_right :: bool
  middle_right :: bool
  rear_right :: bool

record frsky_status =
  frsky_controller_connection_status :: bool

text \<open>
  A Python float as far as a comparison can tell: a number, an infinity, or NaN. Under
  Python's \<open>!=\<close> NaN differs from every float, itself included.
\<close>

datatype py_float = Finite real | PosInf | NegInf | NaN

definition py_ne :: "py_float \<Rightarrow> py_float \<Rightarrow> bool" where
  "py_ne a b \<longleftrightarrow> a = NaN \<or> b = NaN \<or> a \<noteq> b"

record gps_info =
  gps_connected :: bool
  gps_fix :: bool
  num_satellites :: int
  horizontal_dilution :: py_float
  kmph :: py_float
  gps_heading :: py_float

record jetson_info =
  jetson_cpu :: real
  jetson_ram :: real
  jetson_emmc :: real
  jetson_nvme_ssd :: real
  jetson_gpu_temp :: real

record misc_statuses =
  arm_connection_status :: bool
  arm_end_effector_connection_statuses :: bool
  chassis_pan_tilt_connection_status :: bool
  sample_containment_connection_status :: bool
  tower_connection_status :: bool

text \<open>\<open>DriveStatusMessage\<close>, received from the three bogie topics.\<close>

record drive_status_message =
  first_motor_connected :: bool
  second_motor_connected :: bool

text \<open>
  What \<open>pynmea2.parse\<close> made of a sentence, as far as \<open>__set_gps_info\<close> looks at it.
  A field the node converts with \<open>int\<close> or \<open>float\<close> is the converted number, or the
  exception the conversion raises (on an empty field, for one). \<open>true_track\<close> is
  \<open>None\<close>, or what \<open>float\<close> makes of it. \<open>Untyped_sentence\<close> is a parse
  result without the attribute \<open>sentence_type\<close>, whose access raises.
\<close>

datatype nmea_message =
    GGA (gps_qual: "py_exception + int") (num_sats: "py_exception + int")
        (horizontal_dil: "py_exception + py_float")
  | VTG (spd_over_grnd_kmph: "py_exception + py_float")
        (true_track: "(py_exception + py_float) option")
  | Other_sentence
  | Untyped_sentence

text \<open>What the node sends out: one publication per category, and a printed line.\<close>

datatype status_output =
    Pub_battery battery_status_message
  | Pub_camera camera_statuses
  | Pub_jetson jetson_info
  | Pub_frsky frsky_status
  | Pub_wheel wheel_statuses
  | Pub_gps gps_info
  | Pub_misc misc_statuses
  | Print_sensors_failed

fun is_pub_battery :: "status_output \<Rightarrow> bool" where
  "is_pub_battery (Pub_battery m) = True"
| "is_pub_battery other = False"

fun is_pub_camera :: "status_output \<Rightarrow> bool" where
  "is_pub_camera (Pub_camera m) = True"
| "is_pub_camera other = False"

fun is_pub_jetson :: "status_output \<Rightarrow> bool" where
  "is_pub_jetson (Pub_jetson m) = True"
| "is_pub_jetson other = False"

fun is_pub_frsky :: "status_output \<Rightarrow> bool" where
  "is_pub_frsky (Pub_frsky m) = True"
| "is_pub_frsky other = False"

fun is_pub_wheel :: "status_output \<Rightarrow> bool" where
  "is_pub_wheel (Pub_wheel m) = True"
| "is_pub_wheel other = False"

fun is_pub_gps :: "status_output \<Rightarrow> bool" where
  "is_pub_gps (Pub_gps m) = True"
| "is_pub_gps other = False"

fun is_pub_misc :: "status_output \<Rightarrow> bool" where
  "is_pub_misc (Pub_misc m) = True"
| "is_pub_misc other = False"

fun is_publication :: "status_output \<Rightarrow> bool" where
  "is_publication Print_sensors_failed = False"
| "is_publication other = True"

subsection \<open>The node's state and the inputs of a tick\<close>

text \<open>The callbacks a subscription can be bound to.\<close>

datatype callback =
    On_update_requested
  | Iris_status_callback
  | Left_wheel_callback
  | Right_wheel_callback
  | Rear_wheel_callback
  | Set_gps_info
  | Frsky_callback

text \<open>
  The attributes of \<open>SystemStatuses\<close>. The \<open>previous_\<close> attributes of one category are
  grouped in a record of the category's message type: \<open>camera_zed (previous_camera s)\<close>
  is \<open>self.previous_camera_zed\<close>, and so on. \<open>subscriptions\<close> lists what
  \<open>create_subscription\<close> has registered with the node, oldest first.
\<close>

record system_statuses =
  manual_update_requested :: bool
  battery_message :: battery_status_message
  camera_msg :: camera_statuses
  wheel_msg :: wheel_statuses
  FrSky_msg :: frsky_status
  GPS_msg :: gps_info
  jetson_msg :: jetson_info
  misc_msg :: misc_statuses
  previous_battery :: battery_status_message
  previous_camera :: camera_statuses
  previous_jetson :: jetson_info
  previous_frsky :: frsky_status
  previous_wheel :: wheel_statuses
  previous_gps :: gps_info
  previous_misc :: misc_statuses
  last_jetson_message_sent :: real
  last_iris_message_sent :: real
  subscriptions :: "(string \<times> callback) list"

text \<open>\<open>os.statvfs\<close>: the four fields \<open>__used_percent_fs\<close> reads.\<close>

record statvfs_result =
  f_frsize :: int
  f_blocks :: int
  f_bfree :: int
  f_bavail :: int

text \<open>
  \<open>subprocess.check_output("sensors | grep temp", shell=True)\<close>: the pipeline fails
  (\<open>CalledProcessError\<close>), or it returns its standard output, a \<open>bytes\<close> object.
\<close>

datatype sensors_outcome = Called_process_error | Sensors_stdout string

text \<open>
  What the system answers during one tick: which paths exist, the processor and memory
  load, the file system statistics, the outcome of the sensors pipeline, and what
  \<open>time()\<close> returns at the rate check and after the publication of the battery and of
  the Jetson message. \<open>round_4\<close> is Python's \<open>round(x, 4)\<close>: it rounds the double
  that stands for \<open>x\<close>, which a function on the reals cannot follow where a tie is
  near, so it is taken as given.
\<close>

record status_tick =
  path_exists :: "string \<Rightarrow> bool"
  cpu_percent :: real
  virtual_memory_percent :: real
  statvfs :: "string \<Rightarrow> py_exception + statvfs_result"
  round_4 :: "real \<Rightarrow> real"
  sensors :: sensors_outcome
  t_iris_check :: real
  t_iris_sent :: real
  t_jetson_check :: real
  t_jetson_sent :: real

subsection \<open>Refreshing the messages\<close>

definition set_arm_connection_status :: "system_statuses \<Rightarrow> system_statuses" where
  "set_arm_connection_status s =
     s\<lparr>misc_msg := (misc_msg s)\<lparr>arm_connection_status := False\<rparr>\<rparr>"

definition set_arm_end_effector_connection_statuses ::
    "system_statuses \<Rightarrow> system_statuses" where
  "set_arm_end_effector_connection_statuses s =
     s\<lparr>misc_msg := (misc_msg s)\<lparr>arm_end_effector_connection_statuses := False\<rparr>\<rparr>"

definition set_cameras :: "status_tick \<Rightarrow> system_statuses \<Rightarrow> system_statuses" where
  "set_cameras env s =
     s\<lparr>camera_msg := (camera_msg s)
        \<lparr>camera_zed := path_exists env (system_path_locations ! 0),
         camera_undercarriage := path_exists env (system_path_locations ! 1),
         camera_chassis := path_exists env (system_path_locations ! 2),
         camera_main_navigation := path_exists env (system_path_locations ! 3)\<rparr>\<rparr>"

definition set_sample_containment_connection_status ::
    "system_statuses \<Rightarrow> system_statuses" where
  "set_sample_containment_connection_status s =
     s\<lparr>misc_msg := (misc_msg s)\<lparr>sample_containment_connection_status := False\<rparr>\<rparr>"

definition set_tower_connection_status :: "system_statuses \<Rightarrow> system_statuses" where
  "set_tower_connection_status s =
     s\<lparr>misc_msg := (misc_msg s)\<lparr>tower_connection_status := False\<rparr>\<rparr>"

definition set_chassis_pan_tilt_connection_status ::
    "system_statuses \<Rightarrow> system_statuses" where
  "set_chassis_pan_tilt_connection_status s =
     s\<lparr>misc_msg := (misc_msg s)\<lparr>chassis_pan_tilt_connection_status := False\<rparr>\<rparr>"

text \<open>
  \<open>__used_percent_fs\<close>: the used share of a file system in percent. \<open>os.statvfs\<close> can
  raise, and so does the division when the file system has no used and no available
  block.
\<close>

definition used_percent_fs :: "status_tick \<Rightarrow> string \<Rightarrow> py_exception + real" where
  "used_percent_fs env pathname =
     (case statvfs env pathname of
        Inl e \<Rightarrow> Inl e
      | Inr st \<Rightarrow>
          (let used_available =
                 real_of_int (f_frsize st * f_blocks st) / 1024
                 - real_of_int (f_frsize st * f_bfree st) / 1024.0;
               total = used_available + real_of_int (f_frsize st * f_bavail st) / 1024.0
           in if total = 0 then Inl ZeroDivisionError
              else Inr (100 * round_4 env (used_available / total))))"

text \<open>
  \<open>__set_jetson_usage_information\<close>. When the sensors pipeline fails the temperature is
  \<open>-1.0\<close> and a line is printed. When it succeeds its output is a \<open>bytes\<close> object, and
  \<open>bytes.replace\<close> called with \<open>str\<close> arguments raises \<open>TypeError\<close>, which the
  handler for \<open>CalledProcessError\<close> does not catch.
\<close>

definition set_jetson_usage_information ::
    "status_tick \<Rightarrow> system_statuses \<Rightarrow> py_exception + system_statuses \<times> status_output list" where
  "set_jetson_usage_information env s =
     (case used_percent_fs env (file_systems_EMMC_NVMe_SSD ! 0) of
        Inl e \<Rightarrow> Inl e
      | Inr emmc \<Rightarrow>
          (case used_percent_fs env (file_systems_EMMC_NVMe_SSD ! 1) of
             Inl e \<Rightarrow> Inl e
           | Inr nvme \<Rightarrow>
               (case sensors env of
                  Sensors_stdout out \<Rightarrow> Inl TypeError
                | Called_process_error \<Rightarrow>
                    Inr (s\<lparr>jetson_msg := (jetson_msg s)
                            \<lparr>jetson_cpu := cpu_percent env,
                             jetson_ram := virtual_memory_percent env,
                             jetson_emmc := emmc,
                             jetson_nvme_ssd := nvme,
                             jetson_gpu_temp := - 1.0\<rparr>\<rparr>,
                         [Print_sensors_failed]))))"

text \<open>\<open>create_subscription\<close> registers one more subscription with the node.\<close>

definition create_subscription ::
    "string \<Rightarrow> callback \<Rightarrow> system_statuses \<Rightarrow> system_statuses" where
  "create_subscription topic cb s = s\<lparr>subscriptions := subscriptions s @ [(topic, cb)]\<rparr>"

text \<open>\<open>__set_frsky_controller_connection_status\<close>: it creates a subscription.\<close>

definition set_frsky_controller_connection_status ::
    "system_statuses \<Rightarrow> system_statuses" where
  "set_frsky_controller_connection_status s =
     create_subscription IRIS_DRIVE_TOPIC_NAME Frsky_callback s"

text \<open>
  \<open>__pull_new_message_values\<close>, the refresh at the start of every tick. An exception
  leaves the timer callback and ends the process, so the result is then the exception
  alone.
\<close>

definition pull_new_message_values ::
    "status_tick \<Rightarrow> system_statuses \<Rightarrow> py_exception + system_statuses \<times> status_output list" where
  "pull_new_message_values env s =
     (case set_jetson_usage_information env
             (set_chassis_pan_tilt_connection_status
               (set_tower_connection_status
                 (set_sample_containment_connection_status
                   (set_cameras env
                     (set_arm_end_effector_connection_statuses
                       (set_arm_connection_status s)))))) of
        Inl e \<Rightarrow> Inl e
      | Inr (s1, outs) \<Rightarrow> Inr (set_frsky_controller_connection_status s1, outs))"

subsection \<open>Subscription callbacks\<close>

definition iris_status_callback :: "iris_status_message \<Rightarrow> system_statuses \<Rightarrow> system_statuses" where
  "iris_status_callback data s =
     s\<lparr>battery_message := (battery_message s)\<lparr>battery_voltage := voltage_24v data\<rparr>\<rparr>"

definition left_wheel_callback :: "drive_status_message \<Rightarrow> system_statuses \<Rightarrow> system_statuses" where
  "left_wheel_callback data s =
     s\<lparr>wheel_msg := (wheel_msg s)
        \<lparr>front_left := first_motor_connected data,
         middle_left := second_motor_connected data\<rparr>\<rparr>"

definition right_wheel_callback :: "drive_status_message \<Rightarrow> system_statuses \<Rightarrow> system_statuses" where
  "right_wheel_callback data s =
     s\<lparr>wheel_msg := (wheel_msg s)
        \<lparr>front_right := first_motor_connected data,
         middle_right := second_motor_connected data\<rparr>\<rparr>"

definition rear_wheel_callback :: "drive_status_message \<Rightarrow> system_statuses \<Rightarrow> system_statuses" where
  "rear_wheel_callback data s =
     s\<lparr>wheel_msg := (wheel_msg s)
        \<lparr>rear_left := first_motor_connected data,
         rear_right := second_motor_connected data\<rparr>\<rparr>"

definition frsky_callback :: "drive_command_message \<Rightarrow> system_statuses \<Rightarrow> system_statuses" where
  "frsky_callback data s =
     s\<lparr>FrSky_msg := (FrSky_msg s)
        \<lparr>frsky_controller_connection_status := controller_present data\<rparr>\<rparr>"

definition on_update_requested :: "system_statuses \<Rightarrow> system_statuses" where
  "on_update_requested s = s\<lparr>manual_update_requested := True\<rparr>"

text \<open>
  \<open>__set_gps_info\<close>. The argument is the parsed sentence, \<open>None\<close> when
  \<open>pynmea2.parse\<close> raised. The result is the exception that leaves the callback, if any,
  and the state the node is left in: the connected flag is set before anything can fail.
  Only the conversion of the speed is guarded by a handler of its own.
\<close>

definition set_gps_info ::
    "nmea_message option \<Rightarrow> system_statuses \<Rightarrow> py_exception option \<times> system_statuses" where
  "set_gps_info data s =
     (let s1 = s\<lparr>GPS_msg := (GPS_msg s)\<lparr>gps_connected := True\<rparr>\<rparr>
      in case data of
           None \<Rightarrow> (None, s1)
         | Some Untyped_sentence \<Rightarrow> (Some AttributeError, s1)
         | Some (GGA qual sats dil) \<Rightarrow>
             (case qual of
                Inl e \<Rightarrow> (Some e, s1)
              | Inr q \<Rightarrow>
                  (let s2 = s1\<lparr>GPS_msg := (GPS_msg s1)\<lparr>gps_fix := (q \<noteq> 0)\<rparr>\<rparr>
                   in case sats of
                        Inl e \<Rightarrow> (Some e, s2)
                      | Inr n \<Rightarrow>
                          (let s3 = s2\<lparr>GPS_msg := (GPS_msg s2)\<lparr>num_satellites := n\<rparr>\<rparr>
                           in case dil of
                                Inl e \<Rightarrow> (Some e, s3)
                              | Inr d \<Rightarrow>
                                  (None,
                                   s3\<lparr>GPS_msg := (GPS_msg s3)\<lparr>horizontal_dilution := d\<rparr>\<rparr>))))
         | Some (VTG spd track) \<Rightarrow>
             (let s2 = (case spd of
                          Inl e \<Rightarrow> s1
                        | Inr v \<Rightarrow> s1\<lparr>GPS_msg := (GPS_msg s1)\<lparr>kmph := v\<rparr>\<rparr>)
              in case track of
                   None \<Rightarrow>
                     (None, s2\<lparr>GPS_msg := (GPS_msg s2)\<lparr>gps_heading := Finite (- 1.0)\<rparr>\<rparr>)
                 | Some (Inl e) \<Rightarrow> (Some e, s2)
                 | Some (Inr h) \<Rightarrow>
                     (None, s2\<lparr>GPS_msg := (GPS_msg s2)\<lparr>gps_heading := h\<rparr>\<rparr>))
         | Some Other_sentence \<Rightarrow> (None, s1))"

subsection \<open>The values of the last publication\<close>

definition set_previous_battery_values :: "system_statuses \<Rightarrow> system_statuses" where
  "set_previous_battery_values s =
     s\<lparr>previous_battery := (previous_battery s)
        \<lparr>battery_voltage := battery_voltage (battery_message s)\<rparr>\<rparr>"

definition set_previous_camera_values :: "system_statuses \<Rightarrow> system_statuses" where
  "set_previous_camera_values s =
     s\<lparr>previous_camera := (previous_camera s)
        \<lparr>camera_zed := camera_zed (camera_msg s),
         camera_undercarriage := camera_undercarriage (camera_msg s),
         camera_chassis := camera_chassis (camera_msg s),
         camera_main_navigation := camera_main_navigation (camera_msg s)\<rparr>\<rparr>"

definition set_previous_jetson_values :: "system_statuses \<Rightarrow> system_statuses" where
  "set_previous_jetson_values s =
     s\<lparr>previous_jetson := (previous_jetson s)
        \<lparr>jetson_cpu := jetson_cpu (jetson_msg s),
         jetson_ram := jetson_ram (jetson_msg s),
         jetson_emmc := jetson_emmc (jetson_msg s),
         jetson_nvme_ssd := jetson_nvme_ssd (jetson_msg s),
         jetson_gpu_temp := jetson_gpu_temp (jetson_msg s)\<rparr>\<rparr>"

definition set_previous_frsky_value :: "system_statuses \<Rightarrow> system_statuses" where
  "set_previous_frsky_value s =
     s\<lparr>previous_frsky := (previous_frsky s)
        \<lparr>frsky_controller_connection_status :=
           frsky_controller_connection_status (FrSky_msg s)\<rparr>\<rparr>"

definition set_previous_wheel_values :: "system_statuses \<Rightarrow> system_statuses" where
  "set_previous_wheel_values s =
     s\<lparr>previous_wheel := (previous_wheel s)
        \<lparr>front_left := front_left (wheel_msg s),
         middle_left := middle_left (wheel_msg s),
         rear_left := rear_left (wheel_msg s),
         front_right := front_right (wheel_msg s),
         middle_right := middle_right (wheel_msg s),
         rear_right := rear_right (wheel_msg s)\<rparr>\<rparr>"

definition set_previous_gps_values :: "system_statuses \<Rightarrow> system_statuses" where
  "set_previous_gps_values s =
     s\<lparr>previous_gps := (previous_gps s)
        \<lparr>gps_connected := gps_connected (GPS_msg s),
         gps_fix := gps_fix (GPS_msg s),
         num_satellites := num_satellites (GPS_msg s),
         horizontal_dilution := horizontal_dilution (GPS_msg s),
         kmph := kmph (GPS_msg s),
         gps_heading := gps_heading (GPS_msg s)\<rparr>\<rparr>"

definition set_previous_misc_values :: "system_statuses \<Rightarrow> system_statuses" where
  "set_previous_misc_values s =
     s\<lparr>previous_misc := (previous_misc s)
        \<lparr>arm_connection_status := arm_connection_status (misc_msg s),
         arm_end_effector_connection_statuses :=
           arm_end_effector_connection_statuses (misc_msg s),
         chassis_pan_tilt_connection_status :=
           chassis_pan_tilt_connection_status (misc_msg s),
         sample_containment_connection_status :=
           sample_containment_connection_status (misc_msg s),
         tower_connection_status := tower_connection_status (misc_msg s)\<rparr>\<rparr>"

definition update_all_previous_values :: "system_statuses \<Rightarrow> system_statuses" where
  "update_all_previous_values s =
     set_previous_misc_values
       (set_previous_gps_values
         (set_previous_wheel_values
           (set_previous_frsky_value
             (set_previous_jetson_values
               (set_previous_camera_values
                 (set_previous_battery_values s))))))"

subsection \<open>The tick\<close>

text \<open>
  The conditions of \<open>main_loop\<close>, one per category, as the source writes them: a
  disjunction of field comparisons, closed by the manual update flag. The condition of
  the GPS category does not look at the flag, and compares three floats that can be NaN.
\<close>

definition battery_condition :: "system_statuses \<Rightarrow> bool" where
  "battery_condition s \<longleftrightarrow>
     battery_voltage (battery_message s) \<noteq> battery_voltage (previous_battery s)
     \<or> manual_update_requested s"

definition camera_condition :: "system_statuses \<Rightarrow> bool" where
  "camera_condition s \<longleftrightarrow>
     camera_zed (camera_msg s) \<noteq> camera_zed (previous_camera s)
     \<or> camera_undercarriage (camera_msg s) \<noteq> camera_undercarriage (previous_camera s)
     \<or> camera_chassis (camera_msg s) \<noteq> camera_chassis (previous_camera s)
     \<or> camera_main_navigation (camera_msg s) \<noteq> camera_main_navigation (previous_camera s)
     \<or> manual_update_requested s"

definition jetson_condition :: "system_statuses \<Rightarrow> bool" where
  "jetson_condition s \<longleftrightarrow>
     jetson_cpu (jetson_msg s) \<noteq> jetson_cpu (previous_jetson s)
     \<or> jetson_ram (jetson_msg s) \<noteq> jetson_ram (previous_jetson s)
     \<or> jetson_emmc (jetson_msg s) \<noteq> jetson_emmc (previous_jetson s)
     \<or> jetson_nvme_ssd (jetson_msg s) \<noteq> jetson_nvme_ssd (previous_jetson s)
     \<or> jetson_gpu_temp (jetson_msg s) \<noteq> jetson_gpu_temp (previous_jetson s)
     \<or> manual_update_requested s"

definition frsky_condition :: "system_statuses \<Rightarrow> bool" where
  "frsky_condition s \<longleftrightarrow>
     frsky_controller_connection_status (FrSky_msg s)
       \<noteq> frsky_controller_connection_status (previous_frsky s)
     \<or> manual_update_requested s"

definition wheel_condition :: "system_statuses \<Rightarrow> bool" where
  "wheel_condition s \<longleftrightarrow>
     front_left (wheel_msg s) \<noteq> front_left (previous_wheel s)
     \<or> middle_left (wheel_msg s) \<noteq> middle_left (previous_wheel s)
     \<or> rear_left (wheel_msg s) \<noteq> rear_left (previous_wheel s)
     \<or> front_right (wheel_msg s) \<noteq> front_right (previous_wheel s)
     \<or> middle_right (wheel_msg s) \<noteq> middle_right (previous_wheel s)
     \<or> rear_right (wheel_msg s) \<noteq> rear_right (previous_wheel s)
     \<or> manual_update_requested s"

definition gps_condition :: "system_statuses \<Rightarrow> bool" where
  "gps_condition s \<longleftrightarrow>
     gps_connected (GPS_msg s) \<noteq> gps_connected (previous_gps s)
     \<or> gps_fix (GPS_msg s) \<noteq> gps_fix (previous_gps s)
     \<or> num_satellites (GPS_msg s) \<noteq> num_satellites (previous_gps s)
     \<or> py_ne (horizontal_dilution (GPS_msg s)) (horizontal_dilution (previous_gps s))
     \<or> py_ne (kmph (GPS_msg s)) (kmph (previous_gps s))
     \<or> py_ne (gps_heading (GPS_msg s)) (gps_heading (previous_gps s))"

definition misc_condition :: "system_statuses \<Rightarrow> bool" where
  "misc_condition s \<longleftrightarrow>
     arm_connection_status (misc_msg s) \<noteq> arm_connection_status (previous_misc s)
     \<or> arm_end_effector_connection_statuses (misc_msg s)
          \<noteq> arm_end_effector_connection_statuses (previous_misc s)
     \<or> chassis_pan_tilt_connection_status (misc_msg s)
          \<noteq> chassis_pan_tilt_connection_status (previous_misc s)
     \<or> sample_containment_connection_status (misc_msg s)
          \<noteq> sample_containment_connection_status (previous_misc s)
     \<or> tower_connection_status (misc_msg s) \<noteq> tower_connection_status (previous_misc s)
     \<or> manual_update_requested s"

text \<open>
  The seven blocks of \<open>main_loop\<close> after the refresh, each from a state to the state
  and the outputs it leaves. The battery and the Jetson block publish only when more
  than \<open>1.0 / MAX_..._UPDATE_HERTZ\<close> seconds have passed since the stored time.
\<close>

definition battery_block ::
    "status_tick \<Rightarrow> system_statuses \<Rightarrow> system_statuses \<times> status_output list" where
  "battery_block env s =
     (if battery_condition s then
        (if t_iris_check env - last_iris_message_sent s > 1.0 / MAX_IRIS_UPDATE_HERTZ then
           ((set_previous_battery_values s)\<lparr>last_iris_message_sent := t_iris_sent env\<rparr>,
            [Pub_battery (battery_message s)])
         else (s, []))
      else (s, []))"

definition camera_block :: "system_statuses \<Rightarrow> system_statuses \<times> status_output list" where
  "camera_block s =
     (if camera_condition s
      then (set_previous_camera_values s, [Pub_camera (camera_msg s)])
      else (s, []))"

definition jetson_block ::
    "status_tick \<Rightarrow> system_statuses \<Rightarrow> system_statuses \<times> status_output list" where
  "jetson_block env s =
     (if jetson_condition s then
        (if t_jetson_check env - last_jetson_message_sent s > 1.0 / MAX_JETSON_UPDATE_HERTZ then
           ((set_previous_jetson_values s)\<lparr>last_jetson_message_sent := t_jetson_sent env\<rparr>,
            [Pub_jetson (jetson_msg s)])
         else (s, []))
      else (s, []))"

definition frsky_block :: "system_statuses \<Rightarrow> system_statuses \<times> status_output list" where
  "frsky_block s =
     (if frsky_condition s
      then (set_previous_frsky_value s, [Pub_frsky (FrSky_msg s)])
      else (s, []))"

definition wheel_block :: "system_statuses \<Rightarrow> system_statuses \<times> status_output list" where
  "wheel_block s =
     (if wheel_condition s
      then (set_previous_wheel_values s, [Pub_wheel (wheel_msg s)])
      else (s, []))"

definition gps_block :: "system_statuses \<Rightarrow> system_statuses \<times> status_output list" where
  "gps_block s =
     (if gps_condition s
      then (set_previous_gps_values s, [Pub_gps (GPS_msg s)])
      else (s, []))"

definition misc_block :: "system_statuses \<Rightarrow> system_statuses \<times> status_output list" where
  "misc_block s =
     (if misc_condition s
      then (set_previous_misc_values s, [Pub_misc (misc_msg s)])
      else (s, []))"

text \<open>The blocks in the order of the source, then the flag is cleared.\<close>

definition publish_changes ::
    "status_tick \<Rightarrow> system_statuses \<Rightarrow> system_statuses \<times> status_output list" where
  "publish_changes env s0 =
     (let (s1, o1) = battery_block env s0;
          (s2, o2) = camera_block s1;
          (s3, o3) = jetson_block env s2;
          (s4, o4) = frsky_block s3;
          (s5, o5) = wheel_block s4;
          (s6, o6) = gps_block s5;
          (s7, o7) = misc_block s6
      in ((if manual_update_requested s7 then s7\<lparr>manual_update_requested := False\<rparr> else s7),
          o1 @ o2 @ o3 @ o4 @ o5 @ o6 @ o7))"

text \<open>\<open>main_loop\<close>: the refresh, then the blocks.\<close>

definition status_main_loop ::
    "status_tick \<Rightarrow> system_statuses \<Rightarrow> py_exception + system_statuses \<times> status_output list" where
  "status_main_loop env s =
     (case pull_new_message_values env s of
        Inl e \<Rightarrow> Inl e
      | Inr (s0, o0) \<Rightarrow>
          (let (s8, outs) = publish_changes env s0 in Inr (s8, o0 @ outs)))"

subsection \<open>Start-up and the life of the node\<close>

text \<open>The messages as their constructors leave them: false, zero.\<close>

definition new_node :: system_statuses where
  "new_node =
     \<lparr>manual_update_requested = False,
      battery_message = \<lparr>battery_voltage = 0\<rparr>,
      camera_msg = \<lparr>camera_zed = False, camera_undercarriage = False,
                    camera_chassis = False, camera_main_navigation = False\<rparr>,
      wheel_msg = \<lparr>front_left = False, middle_left = False, rear_left = False,
                   front_right = False, middle_right = False, rear_right = False\<rparr>,
      FrSky_msg = \<lparr>frsky_controller_connection_status = False\<rparr>,
      GPS_msg = \<lparr>gps_connected = False, gps_fix = False, num_satellites = 0,
                 horizontal_dilution = Finite 0, kmph = Finite 0,
                 gps_heading = Finite 0\<rparr>,
      jetson_msg = \<lparr>jetson_cpu = 0, jetson_ram = 0, jetson_emmc = 0,
                    jetson_nvme_ssd = 0, jetson_gpu_temp = 0\<rparr>,
      misc_msg = \<lparr>arm_connection_status = False,
                  arm_end_effector_connection_statuses = False,
                  chassis_pan_tilt_connection_status = False,
                  sample_containment_connection_status = False,
                  tower_connection_status = False\<rparr>,
      previous_battery = \<lparr>battery_voltage = 0\<rparr>,
      previous_camera = \<lparr>camera_zed = False, camera_undercarriage = False,
                          camera_chassis = False, camera_main_navigation = False\<rparr>,
      previous_jetson = \<lparr>jetson_cpu = 0, jetson_ram = 0, jetson_emmc = 0,
                          jetson_nvme_ssd = 0, jetson_gpu_temp = 0\<rparr>,
      previous_frsky = \<lparr>frsky_controller_connection_status = False\<rparr>,
      previous_wheel = \<lparr>front_left = False, middle_left = False, rear_left = False,
                         front_right = False, middle_right = False, rear_right = False\<rparr>,
      previous_gps = \<lparr>gps_connected = False, gps_fix = False, num_satellites = 0,
                       horizontal_dilution = Finite 0, kmph = Finite 0,
                 gps_heading = Finite 0\<rparr>,
      previous_misc = \<lparr>arm_connection_status = False,
                        arm_end_effector_connection_statuses = False,
                        chassis_pan_tilt_connection_status = False,
                        sample_containment_connection_status = False,
                        tower_connection_status = False\<rparr>,
      last_jetson_message_sent = 0,
      last_iris_message_sent = 0,
      subscriptions = []\<rparr>"

definition instantiate_subscribers :: "system_statuses \<Rightarrow> system_statuses" where
  "instantiate_subscribers s =
     create_subscription DEFAULT_GPS_NMEA_TOPIC_NAME Set_gps_info
       (create_subscription DEFAULT_BOGIE_REAR_TOPIC_NAME Rear_wheel_callback
         (create_subscription DEFAULT_BOGIE_RIGHT_TOPIC_NAME Right_wheel_callback
           (create_subscription DEFAULT_BOGIE_LEFT_TOPIC_NAME Left_wheel_callback
             (create_subscription DEFAULT_IRIS_STATUS_TOPIC_NAME Iris_status_callback s))))"

text \<open>
  \<open>__init__\<close>, with the topic names at their defaults: the update subscription, the
  first refresh, the other subscriptions, the previous values, and the two times, read
  from the clock in this order.
\<close>

definition status_init :: "status_tick \<Rightarrow> py_exception + system_statuses" where
  "status_init env =
     (case pull_new_message_values env
             (create_subscription DEFAULT_REQUEST_UPDATE_TOPIC_NAME On_update_requested
                new_node) of
        Inl e \<Rightarrow> Inl e
      | Inr (s1, outs) \<Rightarrow>
          Inr ((update_all_previous_values (instantiate_subscribers s1))
                 \<lparr>last_jetson_message_sent := t_jetson_sent env,
                  last_iris_message_sent := t_iris_sent env\<rparr>))"

text \<open>
  What happens to a running node: the timer fires, or a message arrives on one of the
  subscribed topics and its callback runs.
\<close>

datatype status_event =
    Timer status_tick
  | Update_requested
  | Iris_status_received iris_status_message
  | Left_wheel_received drive_status_message
  | Right_wheel_received drive_status_message
  | Rear_wheel_received drive_status_message
  | GPS_sentence_received "nmea_message option"
  | Drive_command_received drive_command_message

fun status_step ::
    "status_event \<Rightarrow> system_statuses \<Rightarrow> py_exception + system_statuses \<times> status_output list" where
  "status_step (Timer env) s = status_main_loop env s"
| "status_step Update_requested s = Inr (on_update_requested s, [])"
| "status_step (Iris_status_received data) s = Inr (iris_status_callback data s, [])"
| "status_step (Left_wheel_received data) s = Inr (left_wheel_callback data s, [])"
| "status_step (Right_wheel_received data) s = Inr (right_wheel_callback data s, [])"
| "status_step (Rear_wheel_received data) s = Inr (rear_wheel_callback data s, [])"
| "status_step (GPS_sentence_received data) s =
     (case set_gps_info data s of
        (Some e, s1) \<Rightarrow> Inl e
      | (None, s1) \<Rightarrow> Inr (s1, []))"
| "status_step (Drive_command_received data) s = Inr (frsky_callback data s, [])"

text \<open>
  A sequence of events from a state: everything the node sends out, until the events end
  or an exception ends the process.
\<close>

fun status_run :: "status_event list \<Rightarrow> system_statuses \<Rightarrow> status_output list" where
  "status_run [] s = []"
| "status_run (ev # evs) s =
     (case status_step ev s of
        Inl e \<Rightarrow> []
      | Inr (s1, outs) \<Rightarrow> outs @ status_run evs s1)"

text \<open>
  The publications of the battery message in a sequence of events, each as the pair of
  clock readings that enclose it: the one of the rate check before it and the one stored
  after it. The same for the Jetson message.
\<close>

fun battery_publish_times :: "status_event list \<Rightarrow> system_statuses \<Rightarrow> (real \<times> real) list" where
  "battery_publish_times [] s = []"
| "battery_publish_times (ev # evs) s =
     (case status_step ev s of
        Inl e \<Rightarrow> []
      | Inr (s1, outs) \<Rightarrow>
          (case ev of
             Timer env \<Rightarrow>
               (if list_ex is_pub_battery outs then [(t_iris_check env, t_iris_sent env)]
                else [])
           | other \<Rightarrow> [])
          @ battery_publish_times evs s1)"

fun jetson_publish_times :: "status_event list \<Rightarrow> system_statuses \<Rightarrow> (real \<times> real) list" where
  "jetson_publish_times [] s = []"
| "jetson_publish_times (ev # evs) s =
     (case status_step ev s of
        Inl e \<Rightarrow> []
      | Inr (s1, outs) \<Rightarrow>
          (case ev of
             Timer env \<Rightarrow>
               (if list_ex is_pub_jetson outs then [(t_jetson_check env, t_jetson_sent env)]
                else [])
           | other \<Rightarrow> [])
          @ jetson_publish_times evs s1)"

subsection \<open>Observing a tick\<close>

text \<open>
  Three readings of the result of \<open>main_loop\<close>, and the state as the refresh leaves it,
  which is the one the conditions of the tick compare with the previous values.
\<close>

definition tick_completes :: "status_tick \<Rightarrow> system_statuses \<Rightarrow> bool" where
  "tick_completes env s =
     (case status_main_loop env s of Inl e \<Rightarrow> False | Inr r \<Rightarrow> True)"

definition tick_state :: "status_tick \<Rightarrow> system_statuses \<Rightarrow> system_statuses" where
  "tick_state env s =
     (case status_main_loop env s of Inl e \<Rightarrow> s | Inr (s1, outs) \<Rightarrow> s1)"

definition tick_outputs :: "status_tick \<Rightarrow> system_statuses \<Rightarrow> status_output list" where
  "tick_outputs env s =
     (case status_main_loop env s of Inl e \<Rightarrow> [] | Inr (s1, outs) \<Rightarrow> outs)"

definition refreshed :: "status_tick \<Rightarrow> system_statuses \<Rightarrow> system_statuses" where
  "refreshed env s =
     (case pull_new_message_values env s of Inl e \<Rightarrow> s | Inr (s0, outs) \<Rightarrow> s0)"

text \<open>
  The clock does not run backwards between the rate check of a tick and the time stored
  after the publication.
\<close>

fun clock_ordered :: "status_event \<Rightarrow> bool" where
  "clock_ordered (Timer env) \<longleftrightarrow>
     t_iris_check env \<le> t_iris_sent env \<and> t_jetson_check env \<le> t_jetson_sent env"
| "clock_ordered other \<longleftrightarrow> True"

text \<open>Two publications, each a pair of clock readings, more than five seconds apart.\<close>

fun apart :: "real \<times> real \<Rightarrow> real \<times> real \<Rightarrow> bool" where
  "apart (check1, sent1) (check2, sent2) \<longleftrightarrow> check2 - sent1 > 5"

text \<open>A GPS message with NaN in one of its float fields.\<close>

definition gps_has_nan :: "gps_info \<Rightarrow> bool" where
  "gps_has_nan m \<longleftrightarrow> horizontal_dilution m = NaN \<or> kmph m = NaN \<or> gps_heading m = NaN"

text \<open>A published GPS message says connected; other outputs pass.\<close>

fun reports_gps_connected :: "status_output \<Rightarrow> bool" where
  "reports_gps_connected (Pub_gps m) \<longleftrightarrow> gps_connected m"
| "reports_gps_connected other \<longleftrightarrow> True"

subsection \<open>Example inputs\<close>

text \<open>
  A tick at clock reading \<open>t\<close> with processor load \<open>c\<close>, on a machine without
  cameras and without the sensors tool, with half of each file system used; and the node
  started at such a tick. The rounding of the example is to the nearest ten-thousandth,
  which is what Python's does to the share 0.5 of the example.
\<close>

definition example_tick :: "real \<Rightarrow> real \<Rightarrow> status_tick" where
  "example_tick t c =
     \<lparr>path_exists = (\<lambda>p. False),
      cpu_percent = c,
      virtual_memory_percent = 20,
      statvfs = (\<lambda>p. Inr \<lparr>f_frsize = 1024, f_blocks = 4, f_bfree = 2, f_bavail = 2\<rparr>),
      round_4 = (\<lambda>x. real_of_int \<lfloor>x * 10000 + 1 / 2\<rfloor> / 10000),
      sensors = Called_process_error,
      t_iris_check = t, t_iris_sent = t, t_jetson_check = t, t_jetson_sent = t\<rparr>"

definition example_node :: system_statuses where
  "example_node = (case status_init (example_tick 0 10) of Inl e \<Rightarrow> new_node | Inr s \<Rightarrow> s)"

section \<open>Properties of the Iris controller node\<close>

lemmas sbus_defs = SBUS_MAX_def SBUS_MID_def SBUS_MIN_def SBUS_RANGE_def SBUS_DEADZONE_def

lemmas register_defs = LEFT_STICK_Y_AXIS_def RIGHT_STICK_Y_AXIS_def VOLTAGE_24V_def
  IGNORE_CONTROL_def DRIVE_VS_ARM_def SE_SWITCH_def SF_SWITCH_def MODBUS_REGISTER_COUNT_def

subsection \<open>What one tick sends out\<close>

text \<open>
  With all twenty registers present no lookup raises: the tick publishes the drive
  command when the mode switch is below the midpoint, prints \<open>Arm\<close> when it is above
  minimum plus deadzone, and always publishes the status.
\<close>

lemma try_broadcasts_full:
  assumes "length (registers s) = MODBUS_REGISTER_COUNT"
  shows "try_broadcasts s =
     (if registers s ! DRIVE_VS_ARM < SBUS_MID then
        [Drive_command
           (if registers s ! LEFT_STICK_Y_AXIS = 0 \<and> registers s ! RIGHT_STICK_Y_AXIS = 0
            then \<lparr>controller_present = False, ignore_drive_control = True,
                  linear_x = 0, angular_z = 0\<rparr>
            else \<lparr>controller_present = True,
                  ignore_drive_control = (registers s ! IGNORE_CONTROL > SBUS_MID),
                  linear_x =
                    (real_of_int (registers s ! LEFT_STICK_Y_AXIS - SBUS_MID) / SBUS_RANGE
                     + real_of_int (registers s ! RIGHT_STICK_Y_AXIS - SBUS_MID) / SBUS_RANGE) / 2,
                  angular_z =
                    (real_of_int (registers s ! RIGHT_STICK_Y_AXIS - SBUS_MID) / SBUS_RANGE
                     - real_of_int (registers s ! LEFT_STICK_Y_AXIS - SBUS_MID) / SBUS_RANGE) / 2\<rparr>)]
      else [])
     @ (if registers s ! DRIVE_VS_ARM > SBUS_MIN + SBUS_DEADZONE then [Print_arm] else [])
     @ [Iris_status \<lparr>iris_connected = True, voltage_24v = registers s ! VOLTAGE_24V\<rparr>]"
  using assms
  by (simp add: try_broadcasts_def broadcast_drive_if_current_mode_def
      broadcast_arm_if_current_mode_def broadcast_iris_status_def get_register_def
      register_defs Let_def)



lemma iris_main_loop_state:
  "fst (iris_main_loop inp s) =
     (if t_end inp - iris_last_seen_time (read_registers inp s) > IRIS_LAST_SEEN_TIMEOUT
      then (read_registers inp s)\<lparr>node_destroyed := True\<rparr>
      else read_registers inp s)"
  by (simp add: iris_main_loop_def Let_def)


lemma read_registers_destroyed:
  "node_destroyed (read_registers inp s) = node_destroyed s"
  by (simp add: read_registers_def split: sum.splits)

subsection \<open>Short register vectors\<close>



subsection \<open>Mode selection\<close>

text \<open>
  C5, as stated, fails. The arm branch compares the mode switch with minimum plus
  deadzone (177), not with midpoint plus deadzone (996). At 500 the tick publishes a drive
  command and prints \<open>Arm\<close>: both branches are taken. At 993, between the midpoint and
  midpoint plus deadzone, the arm branch is taken.
\<close>

theorem C5_mode_selection_counterexample:
  "snd (iris_main_loop
          \<lparr>read_result =
             Inr [991, 991, 991, 991, 0, 0, 0, 0, 0, 0, 0, 0, 500, 0, 0, 0, 24, 5, 5, 3],
           t_read = 0, t_end = 0\<rparr> (iris_init 0))
     = [Drive_command \<lparr>controller_present = True, ignore_drive_control = False,
                       linear_x = 0, angular_z = 0\<rparr>,
        Print_arm,
        Iris_status \<lparr>iris_connected = True, voltage_24v = 24\<rparr>]
   \<and> SBUS_MID \<le> 993 \<and> 993 \<le> SBUS_MID + SBUS_DEADZONE
   \<and> snd (iris_main_loop
          \<lparr>read_result =
             Inr [991, 991, 991, 991, 0, 0, 0, 0, 0, 0, 0, 0, 993, 0, 0, 0, 24, 5, 5, 3],
           t_read = 0, t_end = 0\<rparr> (iris_init 0))
     = [Print_arm, Iris_status \<lparr>iris_connected = True, voltage_24v = 24\<rparr>]"
  by (simp add: iris_main_loop_def Let_def read_registers_def instrument_read_registers_def iris_init_def
      try_broadcasts_def broadcast_drive_if_current_mode_def
      broadcast_arm_if_current_mode_def broadcast_iris_status_def get_register_def
      register_defs sbus_defs IRIS_LAST_SEEN_TIMEOUT_def)

text \<open>
  C5, amended. For a full register snapshot the drive branch fires (a drive command is
  published) exactly when the mode switch is below the midpoint, 991, and the arm branch
  fires (\<open>Arm\<close> is printed) exactly when it is above minimum plus deadzone, 177. So from
  the midpoint upwards, the zone up to midpoint plus deadzone included, the arm branch
  fires and the drive branch does not, and there is no value of the switch at which
  neither fires.
\<close>

theorem C5_mode_selection_thresholds:
  assumes "length (registers s) = MODBUS_REGISTER_COUNT"
  shows "(list_ex is_drive_command (try_broadcasts s)
            \<longleftrightarrow> registers s ! DRIVE_VS_ARM < SBUS_MID)
       \<and> (Print_arm \<in> set (try_broadcasts s)
            \<longleftrightarrow> registers s ! DRIVE_VS_ARM > SBUS_MIN + SBUS_DEADZONE)
       \<and> SBUS_MID = 991 \<and> SBUS_MIN + SBUS_DEADZONE = 177
       \<and> (SBUS_MID \<le> registers s ! DRIVE_VS_ARM \<longrightarrow>
            Print_arm \<in> set (try_broadcasts s)
            \<and> \<not> list_ex is_drive_command (try_broadcasts s))
       \<and> (list_ex is_drive_command (try_broadcasts s) \<or> Print_arm \<in> set (try_broadcasts s))"
proof -
  have drive: "list_ex is_drive_command (try_broadcasts s)
                 \<longleftrightarrow> registers s ! DRIVE_VS_ARM < SBUS_MID"
    by (simp add: try_broadcasts_full [OF assms])
  have arm: "Print_arm \<in> set (try_broadcasts s)
               \<longleftrightarrow> registers s ! DRIVE_VS_ARM > SBUS_MIN + SBUS_DEADZONE"
    by (simp add: try_broadcasts_full [OF assms])
  have thresholds: "SBUS_MID = 991" "SBUS_MIN + SBUS_DEADZONE = 177"
    by (simp_all add: sbus_defs)
  from drive arm thresholds show ?thesis
    by auto
qed

theorem C5_mode_selection_thresholds_witness:
  "list_ex is_drive_command
     (try_broadcasts
        \<lparr>registers = [991, 991, 991, 991, 0, 0, 0, 0, 0, 0, 0, 0, 172, 0, 0, 0, 24, 5, 5, 3],
         self_iris_connected = False, iris_last_seen_time = 0, node_destroyed = False\<rparr>)
   \<and> Print_arm \<notin> set
     (try_broadcasts
        \<lparr>registers = [991, 991, 991, 991, 0, 0, 0, 0, 0, 0, 0, 0, 172, 0, 0, 0, 24, 5, 5, 3],
         self_iris_connected = False, iris_last_seen_time = 0, node_destroyed = False\<rparr>)
   \<and> Print_arm \<in> set
     (try_broadcasts
        \<lparr>registers = [991, 991, 991, 991, 0, 0, 0, 0, 0, 0, 0, 0, 993, 0, 0, 0, 24, 5, 5, 3],
         self_iris_connected = False, iris_last_seen_time = 0, node_destroyed = False\<rparr>)
   \<and> \<not> list_ex is_drive_command
     (try_broadcasts
        \<lparr>registers = [991, 991, 991, 991, 0, 0, 0, 0, 0, 0, 0, 0, 993, 0, 0, 0, 24, 5, 5, 3],
         self_iris_connected = False, iris_last_seen_time = 0, node_destroyed = False\<rparr>)"
  using C5_mode_selection_thresholds
          [of "\<lparr>registers = [991, 991, 991, 991, 0, 0, 0, 0, 0, 0, 0, 0, 172, 0, 0, 0, 24, 5, 5, 3],
                 self_iris_connected = False, iris_last_seen_time = 0,
                 node_destroyed = False\<rparr>"]
        C5_mode_selection_thresholds
          [of "\<lparr>registers = [991, 991, 991, 991, 0, 0, 0, 0, 0, 0, 0, 0, 993, 0, 0, 0, 24, 5, 5, 3],
                 self_iris_connected = False, iris_last_seen_time = 0,
                 node_destroyed = False\<rparr>"]
  by (simp add: register_defs sbus_defs)

subsection \<open>The drive command\<close>

text \<open>
  C6. For every full register snapshot in drive mode (mode switch below the midpoint)
  the node publishes one drive command. If both stick readings are the sentinel 0 it
  says controller absent, ignore drive control, zero velocities, whatever the other
  registers hold. Otherwise it says controller present, takes \<open>ignore_drive_control\<close>
  from the comparison of the ignore switch with the midpoint, and mixes the two
  normalised sticks, each \<open>(raw - mid) / range\<close>: linear is half their sum, angular half
  of right minus left. With left at mid plus range and right at mid this gives 0.5 and
  -0.5. Python floats are read as real numbers.
\<close>

theorem C6_drive_command:
  assumes "length (registers s) = MODBUS_REGISTER_COUNT"
      and "registers s ! DRIVE_VS_ARM < SBUS_MID"
  shows "broadcast_drive_if_current_mode s =
           Inr [Drive_command
                  (if registers s ! LEFT_STICK_Y_AXIS = 0 \<and> registers s ! RIGHT_STICK_Y_AXIS = 0
                   then \<lparr>controller_present = False, ignore_drive_control = True,
                         linear_x = 0, angular_z = 0\<rparr>
                   else (let left_norm =
                               (real_of_int (registers s ! LEFT_STICK_Y_AXIS)
                                  - real_of_int SBUS_MID) / SBUS_RANGE;
                             right_norm =
                               (real_of_int (registers s ! RIGHT_STICK_Y_AXIS)
                                  - real_of_int SBUS_MID) / SBUS_RANGE
                         in \<lparr>controller_present = True,
                             ignore_drive_control = (registers s ! IGNORE_CONTROL > SBUS_MID),
                             linear_x = (left_norm + right_norm) / 2,
                             angular_z = (right_norm - left_norm) / 2\<rparr>))]
       \<and> (real_of_int (registers s ! LEFT_STICK_Y_AXIS) = real_of_int SBUS_MID + SBUS_RANGE
            \<and> registers s ! RIGHT_STICK_Y_AXIS = SBUS_MID \<longrightarrow>
          broadcast_drive_if_current_mode s =
            Inr [Drive_command
                   \<lparr>controller_present = True,
                    ignore_drive_control = (registers s ! IGNORE_CONTROL > SBUS_MID),
                    linear_x = 0.5, angular_z = - 0.5\<rparr>])"
proof -
  have command: "broadcast_drive_if_current_mode s =
           Inr [Drive_command
                  (if registers s ! LEFT_STICK_Y_AXIS = 0 \<and> registers s ! RIGHT_STICK_Y_AXIS = 0
                   then \<lparr>controller_present = False, ignore_drive_control = True,
                         linear_x = 0, angular_z = 0\<rparr>
                   else (let left_norm =
                               (real_of_int (registers s ! LEFT_STICK_Y_AXIS)
                                  - real_of_int SBUS_MID) / SBUS_RANGE;
                             right_norm =
                               (real_of_int (registers s ! RIGHT_STICK_Y_AXIS)
                                  - real_of_int SBUS_MID) / SBUS_RANGE
                         in \<lparr>controller_present = True,
                             ignore_drive_control = (registers s ! IGNORE_CONTROL > SBUS_MID),
                             linear_x = (left_norm + right_norm) / 2,
                             angular_z = (right_norm - left_norm) / 2\<rparr>))]"
    using assms
    by (simp add: broadcast_drive_if_current_mode_def get_register_def register_defs Let_def)
  have scenario: "broadcast_drive_if_current_mode s =
            Inr [Drive_command
                   \<lparr>controller_present = True,
                    ignore_drive_control = (registers s ! IGNORE_CONTROL > SBUS_MID),
                    linear_x = 0.5, angular_z = - 0.5\<rparr>]"
    if left: "real_of_int (registers s ! LEFT_STICK_Y_AXIS) = real_of_int SBUS_MID + SBUS_RANGE"
      and right: "registers s ! RIGHT_STICK_Y_AXIS = SBUS_MID"
  proof -
    have "registers s ! RIGHT_STICK_Y_AXIS \<noteq> 0"
      using right by (simp add: SBUS_MID_def)
    then show ?thesis
      using left right by (simp add: command Let_def SBUS_RANGE_def)
  qed
  from command scenario show ?thesis
    by blast
qed

theorem C6_drive_command_witness:
  "broadcast_drive_if_current_mode
     \<lparr>registers = [1811, 991, 991, 991, 0, 0, 0, 0, 0, 0, 0, 0, 172, 1811, 0, 0, 24, 5, 5, 3],
      self_iris_connected = False, iris_last_seen_time = 0, node_destroyed = False\<rparr>
   = Inr [Drive_command \<lparr>controller_present = True, ignore_drive_control = True,
                          linear_x = 0.5, angular_z = - 0.5\<rparr>]
   \<and> broadcast_drive_if_current_mode
     \<lparr>registers = [0, 0, 991, 991, 7, 7, 7, 7, 0, 0, 0, 0, 172, 1811, 0, 0, 24, 5, 5, 3],
      self_iris_connected = False, iris_last_seen_time = 0, node_destroyed = False\<rparr>
   = Inr [Drive_command \<lparr>controller_present = False, ignore_drive_control = True,
                          linear_x = 0, angular_z = 0\<rparr>]"
  using C6_drive_command
          [of "\<lparr>registers = [1811, 991, 991, 991, 0, 0, 0, 0, 0, 0, 0, 0, 172, 1811, 0, 0, 24, 5, 5, 3],
                 self_iris_connected = False, iris_last_seen_time = 0,
                 node_destroyed = False\<rparr>"]
        C6_drive_command
          [of "\<lparr>registers = [0, 0, 991, 991, 7, 7, 7, 7, 0, 0, 0, 0, 172, 1811, 0, 0, 24, 5, 5, 3],
                 self_iris_connected = False, iris_last_seen_time = 0,
                 node_destroyed = False\<rparr>"]
  by (simp add: register_defs sbus_defs Let_def)

subsection \<open>Transport failures\<close>

text \<open>
  C7: the code does not publish a disconnected flag. The first tick below reads twenty
  registers; on the second the transport fails. \<open>read_registers\<close> swallows the
  exception and leaves the last-seen time alone, which is what the claim says; but the
  tick then goes on with the registers of the first tick, and publishes the drive command
  and the status message again, the status with \<open>iris_connected = True\<close>: the flag is a
  constant of \<open>broadcast_iris_status\<close>, and the attribute that \<open>read_registers\<close>
  clears is never read.
\<close>

theorem C7_failed_read_publishes_connected:
  "iris_main_loop \<lparr>read_result = Inl TransportError, t_read = 0.3, t_end = 0.4\<rparr>
     (fst (iris_main_loop
             \<lparr>read_result =
                Inr [991, 1811, 991, 991, 0, 0, 0, 0, 0, 0, 0, 0, 172, 0, 0, 0, 24, 5, 5, 3],
              t_read = 0.1, t_end = 0.2\<rparr> (iris_init 0)))
   = (\<lparr>registers = [991, 1811, 991, 991, 0, 0, 0, 0, 0, 0, 0, 0, 172, 0, 0, 0, 24, 5, 5, 3],
       self_iris_connected = False, iris_last_seen_time = 0.1, node_destroyed = False\<rparr>,
      [Drive_command \<lparr>controller_present = True, ignore_drive_control = False,
                      linear_x = 0.5, angular_z = 0.5\<rparr>,
       Iris_status \<lparr>iris_connected = True, voltage_24v = 24\<rparr>])"
  by (simp add: iris_main_loop_def Let_def read_registers_def instrument_read_registers_def iris_init_def
      try_broadcasts_def broadcast_drive_if_current_mode_def
      broadcast_arm_if_current_mode_def broadcast_iris_status_def get_register_def
      register_defs sbus_defs IRIS_LAST_SEEN_TIMEOUT_def)

subsection \<open>The hard disconnect\<close>

text \<open>
  A live node calls \<open>destroy_node()\<close> at the end of a tick exactly when the clock read
  there is more than one second past the last successful read, a read of this tick
  included; the line announcing the exit is then the last output of the tick. The
  timeout of one second is larger than the transport's 0.15 seconds.
\<close>

lemma iris_main_loop_destroys_node:
  assumes "\<not> node_destroyed s"
  shows "node_destroyed (fst (iris_main_loop inp s))
           \<longleftrightarrow> t_end inp - iris_last_seen_time (read_registers inp s) > IRIS_LAST_SEEN_TIMEOUT"
  using assms by (simp add: iris_main_loop_state read_registers_destroyed)

lemma timeouts_ordered:
  "IRIS_LAST_SEEN_TIMEOUT = 1" "COMMUNICATIONS_TIMEOUT < IRIS_LAST_SEEN_TIMEOUT"
  by (simp_all add: IRIS_LAST_SEEN_TIMEOUT_def COMMUNICATIONS_TIMEOUT_def)

text \<open>
  C8: the code does not end its process. The node is started at clock reading 0 and the
  read of the first tick fails; at the end of the tick the clock reads 1.25, more than
  the timeout past the last successful read. The tick prints the lookup error and the
  line that announces the exit, calls \<open>destroy_node()\<close>, and returns to the executor:
  the result below is all the callback does. Nothing in it raises, shuts the context
  down or leaves the interpreter, so \<open>main\<close> is still inside \<open>rclpy.spin\<close> and
  the process lives on for a supervisor that waits for its end.
\<close>

theorem C8_timeout_destroys_node_and_returns:
  "iris_main_loop \<lparr>read_result = Inl TransportError, t_read = 0, t_end = 1.25\<rparr> (iris_init 0)
   = (\<lparr>registers = [], self_iris_connected = False, iris_last_seen_time = 0,
       node_destroyed = True\<rparr>,
      [Print_error IndexError, Print_exit])"
  by (simp add: iris_main_loop_def Let_def read_registers_def instrument_read_registers_def
      iris_init_def try_broadcasts_def broadcast_drive_if_current_mode_def get_register_def
      register_defs IRIS_LAST_SEEN_TIMEOUT_def)

section \<open>Properties of the system status node\<close>

subsection \<open>The blocks of a tick, as one update each\<close>

text \<open>
  Copying every field of a message is copying the message, and comparing every field is
  comparing the message: the messages have no other fields.
\<close>

lemma set_previous_battery_values_eq:
  "set_previous_battery_values s = s\<lparr>previous_battery := battery_message s\<rparr>"
  by (cases "battery_message s"; cases "previous_battery s")
     (simp add: set_previous_battery_values_def)

lemma set_previous_camera_values_eq:
  "set_previous_camera_values s = s\<lparr>previous_camera := camera_msg s\<rparr>"
  by (cases "camera_msg s"; cases "previous_camera s")
     (simp add: set_previous_camera_values_def)

lemma set_previous_jetson_values_eq:
  "set_previous_jetson_values s = s\<lparr>previous_jetson := jetson_msg s\<rparr>"
  by (cases "jetson_msg s"; cases "previous_jetson s")
     (simp add: set_previous_jetson_values_def)

lemma set_previous_frsky_value_eq:
  "set_previous_frsky_value s = s\<lparr>previous_frsky := FrSky_msg s\<rparr>"
  by (cases "FrSky_msg s"; cases "previous_frsky s")
     (simp add: set_previous_frsky_value_def)

lemma set_previous_wheel_values_eq:
  "set_previous_wheel_values s = s\<lparr>previous_wheel := wheel_msg s\<rparr>"
  by (cases "wheel_msg s"; cases "previous_wheel s")
     (simp add: set_previous_wheel_values_def)

lemma set_previous_gps_values_eq:
  "set_previous_gps_values s = s\<lparr>previous_gps := GPS_msg s\<rparr>"
  by (cases "GPS_msg s"; cases "previous_gps s")
     (simp add: set_previous_gps_values_def)

lemma set_previous_misc_values_eq:
  "set_previous_misc_values s = s\<lparr>previous_misc := misc_msg s\<rparr>"
  by (cases "misc_msg s"; cases "previous_misc s")
     (simp add: set_previous_misc_values_def)

lemma battery_condition_eq:
  "battery_condition s \<longleftrightarrow> battery_message s \<noteq> previous_battery s \<or> manual_update_requested s"
  by (cases "battery_message s"; cases "previous_battery s")
     (simp add: battery_condition_def)

lemma camera_condition_eq:
  "camera_condition s \<longleftrightarrow> camera_msg s \<noteq> previous_camera s \<or> manual_update_requested s"
  by (cases "camera_msg s"; cases "previous_camera s")
     (auto simp add: camera_condition_def)

lemma jetson_condition_eq:
  "jetson_condition s \<longleftrightarrow> jetson_msg s \<noteq> previous_jetson s \<or> manual_update_requested s"
  by (cases "jetson_msg s"; cases "previous_jetson s")
     (auto simp add: jetson_condition_def)

lemma frsky_condition_eq:
  "frsky_condition s \<longleftrightarrow> FrSky_msg s \<noteq> previous_frsky s \<or> manual_update_requested s"
  by (cases "FrSky_msg s"; cases "previous_frsky s")
     (auto simp add: frsky_condition_def)

lemma wheel_condition_eq:
  "wheel_condition s \<longleftrightarrow> wheel_msg s \<noteq> previous_wheel s \<or> manual_update_requested s"
  by (cases "wheel_msg s"; cases "previous_wheel s")
     (auto simp add: wheel_condition_def)

lemma gps_condition_eq:
  "gps_condition s \<longleftrightarrow> GPS_msg s \<noteq> previous_gps s \<or> gps_has_nan (GPS_msg s)"
  by (cases "GPS_msg s"; cases "previous_gps s")
     (auto simp add: gps_condition_def py_ne_def gps_has_nan_def)

lemma misc_condition_eq:
  "misc_condition s \<longleftrightarrow> misc_msg s \<noteq> previous_misc s \<or> manual_update_requested s"
  by (cases "misc_msg s"; cases "previous_misc s")
     (auto simp add: misc_condition_def)

lemmas set_previous_eqs =
  set_previous_battery_values_eq set_previous_camera_values_eq set_previous_jetson_values_eq
  set_previous_frsky_value_eq set_previous_wheel_values_eq set_previous_gps_values_eq
  set_previous_misc_values_eq

lemmas condition_eqs =
  battery_condition_eq camera_condition_eq jetson_condition_eq frsky_condition_eq
  wheel_condition_eq gps_condition_eq misc_condition_eq

lemma rate_window [simp]: "1 / MAX_IRIS_UPDATE_HERTZ = 5" "1 / MAX_JETSON_UPDATE_HERTZ = 5"
  by (simp_all add: MAX_IRIS_UPDATE_HERTZ_def MAX_JETSON_UPDATE_HERTZ_def)

lemma battery_block_eq:
  "battery_block env s =
     (s\<lparr>previous_battery :=
          (if battery_condition s \<and> t_iris_check env - last_iris_message_sent s > 5
           then battery_message s else previous_battery s),
        last_iris_message_sent :=
          (if battery_condition s \<and> t_iris_check env - last_iris_message_sent s > 5
           then t_iris_sent env else last_iris_message_sent s)\<rparr>,
      if battery_condition s \<and> t_iris_check env - last_iris_message_sent s > 5
      then [Pub_battery (battery_message s)] else [])"
  by (simp add: battery_block_def set_previous_battery_values_eq)

lemma jetson_block_eq:
  "jetson_block env s =
     (s\<lparr>previous_jetson :=
          (if jetson_condition s \<and> t_jetson_check env - last_jetson_message_sent s > 5
           then jetson_msg s else previous_jetson s),
        last_jetson_message_sent :=
          (if jetson_condition s \<and> t_jetson_check env - last_jetson_message_sent s > 5
           then t_jetson_sent env else last_jetson_message_sent s)\<rparr>,
      if jetson_condition s \<and> t_jetson_check env - last_jetson_message_sent s > 5
      then [Pub_jetson (jetson_msg s)] else [])"
  by (simp add: jetson_block_def set_previous_jetson_values_eq)

lemma camera_block_eq:
  "camera_block s =
     (s\<lparr>previous_camera := (if camera_condition s then camera_msg s else previous_camera s)\<rparr>,
      if camera_condition s then [Pub_camera (camera_msg s)] else [])"
  by (simp add: camera_block_def set_previous_camera_values_eq)

lemma frsky_block_eq:
  "frsky_block s =
     (s\<lparr>previous_frsky := (if frsky_condition s then FrSky_msg s else previous_frsky s)\<rparr>,
      if frsky_condition s then [Pub_frsky (FrSky_msg s)] else [])"
  by (simp add: frsky_block_def set_previous_frsky_value_eq)

lemma wheel_block_eq:
  "wheel_block s =
     (s\<lparr>previous_wheel := (if wheel_condition s then wheel_msg s else previous_wheel s)\<rparr>,
      if wheel_condition s then [Pub_wheel (wheel_msg s)] else [])"
  by (simp add: wheel_block_def set_previous_wheel_values_eq)

lemma gps_block_eq:
  "gps_block s =
     (s\<lparr>previous_gps := (if gps_condition s then GPS_msg s else previous_gps s)\<rparr>,
      if gps_condition s then [Pub_gps (GPS_msg s)] else [])"
  by (simp add: gps_block_def set_previous_gps_values_eq)

lemma misc_block_eq:
  "misc_block s =
     (s\<lparr>previous_misc := (if misc_condition s then misc_msg s else previous_misc s)\<rparr>,
      if misc_condition s then [Pub_misc (misc_msg s)] else [])"
  by (simp add: misc_block_def set_previous_misc_values_eq)

lemmas block_eqs = battery_block_eq camera_block_eq jetson_block_eq frsky_block_eq
  wheel_block_eq gps_block_eq misc_block_eq

lemma clear_manual_update:
  "(if manual_update_requested s then s\<lparr>manual_update_requested := False\<rparr> else s)
     = s\<lparr>manual_update_requested := False\<rparr>"
  by simp

lemma publish_changes_eq:
  "publish_changes env s =
     (s\<lparr>previous_battery :=
          (if battery_condition s \<and> t_iris_check env - last_iris_message_sent s > 5
           then battery_message s else previous_battery s),
        last_iris_message_sent :=
          (if battery_condition s \<and> t_iris_check env - last_iris_message_sent s > 5
           then t_iris_sent env else last_iris_message_sent s),
        previous_camera := (if camera_condition s then camera_msg s else previous_camera s),
        previous_jetson :=
          (if jetson_condition s \<and> t_jetson_check env - last_jetson_message_sent s > 5
           then jetson_msg s else previous_jetson s),
        last_jetson_message_sent :=
          (if jetson_condition s \<and> t_jetson_check env - last_jetson_message_sent s > 5
           then t_jetson_sent env else last_jetson_message_sent s),
        previous_frsky := (if frsky_condition s then FrSky_msg s else previous_frsky s),
        previous_wheel := (if wheel_condition s then wheel_msg s else previous_wheel s),
        previous_gps := (if gps_condition s then GPS_msg s else previous_gps s),
        previous_misc := (if misc_condition s then misc_msg s else previous_misc s),
        manual_update_requested := False\<rparr>,
      (if battery_condition s \<and> t_iris_check env - last_iris_message_sent s > 5
       then [Pub_battery (battery_message s)] else [])
      @ (if camera_condition s then [Pub_camera (camera_msg s)] else [])
      @ (if jetson_condition s \<and> t_jetson_check env - last_jetson_message_sent s > 5
         then [Pub_jetson (jetson_msg s)] else [])
      @ (if frsky_condition s then [Pub_frsky (FrSky_msg s)] else [])
      @ (if wheel_condition s then [Pub_wheel (wheel_msg s)] else [])
      @ (if gps_condition s then [Pub_gps (GPS_msg s)] else [])
      @ (if misc_condition s then [Pub_misc (misc_msg s)] else []))"
  by (simp add: publish_changes_def block_eqs condition_eqs clear_manual_update Let_def
      split del: if_split cong del: if_weak_cong)

subsection \<open>The refresh and the whole tick\<close>

lemma misc_all_false:
  "(m::misc_statuses)
     \<lparr>arm_connection_status := False, arm_end_effector_connection_statuses := False,
      sample_containment_connection_status := False, tower_connection_status := False,
      chassis_pan_tilt_connection_status := False\<rparr>
   = \<lparr>arm_connection_status = False, arm_end_effector_connection_statuses = False,
      chassis_pan_tilt_connection_status = False,
      sample_containment_connection_status = False, tower_connection_status = False\<rparr>"
  by (cases m) simp

lemma pull_new_message_values_eq:
  "pull_new_message_values env s =
     (case used_percent_fs env (file_systems_EMMC_NVMe_SSD ! 0) of
        Inl e \<Rightarrow> Inl e
      | Inr emmc \<Rightarrow>
          (case used_percent_fs env (file_systems_EMMC_NVMe_SSD ! 1) of
             Inl e \<Rightarrow> Inl e
           | Inr nvme \<Rightarrow>
               (case sensors env of
                  Sensors_stdout out \<Rightarrow> Inl TypeError
                | Called_process_error \<Rightarrow>
                    Inr (s\<lparr>misc_msg :=
                              \<lparr>arm_connection_status = False,
                               arm_end_effector_connection_statuses = False,
                               chassis_pan_tilt_connection_status = False,
                               sample_containment_connection_status = False,
                               tower_connection_status = False\<rparr>,
                            camera_msg := (camera_msg s)
                              \<lparr>camera_zed := path_exists env (system_path_locations ! 0),
                               camera_undercarriage :=
                                 path_exists env (system_path_locations ! 1),
                               camera_chassis := path_exists env (system_path_locations ! 2),
                               camera_main_navigation :=
                                 path_exists env (system_path_locations ! 3)\<rparr>,
                            jetson_msg := (jetson_msg s)
                              \<lparr>jetson_cpu := cpu_percent env,
                               jetson_ram := virtual_memory_percent env,
                               jetson_emmc := emmc,
                               jetson_nvme_ssd := nvme,
                               jetson_gpu_temp := - 1\<rparr>,
                            subscriptions :=
                              subscriptions s @ [(IRIS_DRIVE_TOPIC_NAME, Frsky_callback)]\<rparr>,
                         [Print_sensors_failed]))))"
  by (simp add: pull_new_message_values_def set_jetson_usage_information_def
      set_chassis_pan_tilt_connection_status_def set_tower_connection_status_def
      set_sample_containment_connection_status_def set_cameras_def
      set_arm_end_effector_connection_statuses_def set_arm_connection_status_def
      set_frsky_controller_connection_status_def create_subscription_def misc_all_false
      split: sum.splits sensors_outcome.splits)

text \<open>What the refresh leaves alone.\<close>

lemma refreshed_frame [simp]:
  "manual_update_requested (refreshed env s) = manual_update_requested s"
  "battery_message (refreshed env s) = battery_message s"
  "wheel_msg (refreshed env s) = wheel_msg s"
  "FrSky_msg (refreshed env s) = FrSky_msg s"
  "GPS_msg (refreshed env s) = GPS_msg s"
  "previous_battery (refreshed env s) = previous_battery s"
  "previous_camera (refreshed env s) = previous_camera s"
  "previous_jetson (refreshed env s) = previous_jetson s"
  "previous_frsky (refreshed env s) = previous_frsky s"
  "previous_wheel (refreshed env s) = previous_wheel s"
  "previous_gps (refreshed env s) = previous_gps s"
  "previous_misc (refreshed env s) = previous_misc s"
  "last_jetson_message_sent (refreshed env s) = last_jetson_message_sent s"
  "last_iris_message_sent (refreshed env s) = last_iris_message_sent s"
  by (simp_all add: refreshed_def pull_new_message_values_eq
      split: sum.splits sensors_outcome.splits)

lemma tick_completes_pull:
  "tick_completes env s \<Longrightarrow>
     pull_new_message_values env s = Inr (refreshed env s, [Print_sensors_failed])"
  by (auto simp add: tick_completes_def status_main_loop_def refreshed_def
      pull_new_message_values_eq split: sum.splits sensors_outcome.splits)

lemma status_main_loop_completes:
  assumes "tick_completes env s"
  shows "status_main_loop env s =
           Inr (fst (publish_changes env (refreshed env s)),
                Print_sensors_failed # snd (publish_changes env (refreshed env s)))"
  by (simp add: status_main_loop_def tick_completes_pull [OF assms] case_prod_beta)

lemma status_main_loop_Inr:
  assumes "status_main_loop env s = Inr (s1, outs)"
  shows "tick_completes env s" "s1 = tick_state env s" "outs = tick_outputs env s"
  using assms by (simp_all add: tick_completes_def tick_state_def tick_outputs_def)

lemma tick_subscriptions:
  assumes "tick_completes env s"
  shows "subscriptions (refreshed env s)
           = subscriptions s @ [(IRIS_DRIVE_TOPIC_NAME, Frsky_callback)]"
  using assms
  by (auto simp add: tick_completes_def status_main_loop_def refreshed_def
      pull_new_message_values_eq split: sum.splits sensors_outcome.splits)

lemma tick_misc:
  assumes "tick_completes env s"
  shows "misc_msg (refreshed env s)
           = \<lparr>arm_connection_status = False, arm_end_effector_connection_statuses = False,
              chassis_pan_tilt_connection_status = False,
              sample_containment_connection_status = False,
              tower_connection_status = False\<rparr>"
  using assms
  by (auto simp add: tick_completes_def status_main_loop_def refreshed_def
      pull_new_message_values_eq split: sum.splits sensors_outcome.splits)

text \<open>The outputs and the state of a tick that completes, from the refreshed state.\<close>

lemma tick_outputs_eq:
  assumes "tick_completes env s"
  shows "tick_outputs env s =
      Print_sensors_failed
      # (if battery_condition s \<and> t_iris_check env - last_iris_message_sent s > 5
         then [Pub_battery (battery_message s)] else [])
      @ (if camera_condition (refreshed env s) then [Pub_camera (camera_msg (refreshed env s))]
         else [])
      @ (if jetson_condition (refreshed env s)
            \<and> t_jetson_check env - last_jetson_message_sent s > 5
         then [Pub_jetson (jetson_msg (refreshed env s))] else [])
      @ (if frsky_condition s then [Pub_frsky (FrSky_msg s)] else [])
      @ (if wheel_condition s then [Pub_wheel (wheel_msg s)] else [])
      @ (if gps_condition s then [Pub_gps (GPS_msg s)] else [])
      @ (if misc_condition (refreshed env s) then [Pub_misc (misc_msg (refreshed env s))]
         else [])"
proof -
  have same: "battery_condition (refreshed env s) = battery_condition s"
    "frsky_condition (refreshed env s) = frsky_condition s"
    "wheel_condition (refreshed env s) = wheel_condition s"
    "gps_condition (refreshed env s) = gps_condition s"
    by (simp_all add: condition_eqs)
  show ?thesis
    by (simp add: tick_outputs_def status_main_loop_completes [OF assms]
        publish_changes_eq same split del: if_split cong del: if_weak_cong)
qed

lemma tick_state_eq:
  assumes "tick_completes env s"
  shows "tick_state env s = fst (publish_changes env (refreshed env s))"
  by (simp add: tick_state_def status_main_loop_completes [OF assms])

lemma tick_state_fields:
  assumes "tick_completes env s"
  shows
    "manual_update_requested (tick_state env s) = False"
    "battery_message (tick_state env s) = battery_message s"
    "camera_msg (tick_state env s) = camera_msg (refreshed env s)"
    "jetson_msg (tick_state env s) = jetson_msg (refreshed env s)"
    "FrSky_msg (tick_state env s) = FrSky_msg s"
    "wheel_msg (tick_state env s) = wheel_msg s"
    "GPS_msg (tick_state env s) = GPS_msg s"
    "misc_msg (tick_state env s) = misc_msg (refreshed env s)"
    "previous_battery (tick_state env s) =
       (if battery_condition s \<and> t_iris_check env - last_iris_message_sent s > 5
        then battery_message s else previous_battery s)"
    "last_iris_message_sent (tick_state env s) =
       (if battery_condition s \<and> t_iris_check env - last_iris_message_sent s > 5
        then t_iris_sent env else last_iris_message_sent s)"
    "previous_camera (tick_state env s) = camera_msg (refreshed env s)"
    "previous_jetson (tick_state env s) =
       (if jetson_condition (refreshed env s)
           \<and> t_jetson_check env - last_jetson_message_sent s > 5
        then jetson_msg (refreshed env s) else previous_jetson s)"
    "last_jetson_message_sent (tick_state env s) =
       (if jetson_condition (refreshed env s)
           \<and> t_jetson_check env - last_jetson_message_sent s > 5
        then t_jetson_sent env else last_jetson_message_sent s)"
    "previous_frsky (tick_state env s) = FrSky_msg s"
    "previous_wheel (tick_state env s) = wheel_msg s"
    "previous_gps (tick_state env s) = GPS_msg s"
    "previous_misc (tick_state env s) = misc_msg (refreshed env s)"
    "subscriptions (tick_state env s) = subscriptions (refreshed env s)"
  by (simp add: tick_state_eq [OF assms] publish_changes_eq condition_eqs)+

text \<open>Selecting the publications of one category from the outputs of a tick.\<close>

lemma filter_if_single:
  "filter P (if c then [x] else []) = (if c \<and> P x then [x] else [])"
  by (cases c) simp_all

lemma tick_outputs_filter:
  assumes "tick_completes env s"
  shows
    "filter is_pub_battery (tick_outputs env s) =
       (if battery_condition s \<and> t_iris_check env - last_iris_message_sent s > 5
        then [Pub_battery (battery_message s)] else [])"
    "filter is_pub_camera (tick_outputs env s) =
       (if camera_condition (refreshed env s) then [Pub_camera (camera_msg (refreshed env s))]
        else [])"
    "filter is_pub_jetson (tick_outputs env s) =
       (if jetson_condition (refreshed env s)
           \<and> t_jetson_check env - last_jetson_message_sent s > 5
        then [Pub_jetson (jetson_msg (refreshed env s))] else [])"
    "filter is_pub_frsky (tick_outputs env s) =
       (if frsky_condition s then [Pub_frsky (FrSky_msg s)] else [])"
    "filter is_pub_wheel (tick_outputs env s) =
       (if wheel_condition s then [Pub_wheel (wheel_msg s)] else [])"
    "filter is_pub_gps (tick_outputs env s) =
       (if gps_condition s then [Pub_gps (GPS_msg s)] else [])"
    "filter is_pub_misc (tick_outputs env s) =
       (if misc_condition (refreshed env s) then [Pub_misc (misc_msg (refreshed env s))]
        else [])"
  by (simp_all add: tick_outputs_eq [OF assms] filter_if_single
      split del: if_split cong del: if_weak_cong)

subsection \<open>The example node\<close>

lemma used_percent_fs_example: "used_percent_fs (example_tick t c) pathname = Inr 50"
  by (simp add: used_percent_fs_def example_tick_def Let_def)

lemma pull_example:
  "pull_new_message_values (example_tick t c) s =
     Inr (s\<lparr>misc_msg :=
               \<lparr>arm_connection_status = False, arm_end_effector_connection_statuses = False,
                chassis_pan_tilt_connection_status = False,
                sample_containment_connection_status = False,
                tower_connection_status = False\<rparr>,
             camera_msg := (camera_msg s)
               \<lparr>camera_zed := False, camera_undercarriage := False,
                camera_chassis := False, camera_main_navigation := False\<rparr>,
             jetson_msg := (jetson_msg s)
               \<lparr>jetson_cpu := c, jetson_ram := 20, jetson_emmc := 50,
                jetson_nvme_ssd := 50, jetson_gpu_temp := - 1\<rparr>,
             subscriptions := subscriptions s @ [(IRIS_DRIVE_TOPIC_NAME, Frsky_callback)]\<rparr>,
          [Print_sensors_failed])"
  by (simp add: pull_new_message_values_eq used_percent_fs_example)
     (simp add: example_tick_def)

lemma example_tick_completes [simp]: "tick_completes (example_tick t c) s"
  by (simp add: tick_completes_def status_main_loop_def pull_example case_prod_beta)

lemma example_tick_times [simp]:
  "t_iris_check (example_tick t c) = t" "t_iris_sent (example_tick t c) = t"
  "t_jetson_check (example_tick t c) = t" "t_jetson_sent (example_tick t c) = t"
  by (simp_all add: example_tick_def)

lemma refreshed_example [simp]:
  "camera_msg (refreshed (example_tick t c) s) =
     \<lparr>camera_zed = False, camera_undercarriage = False,
      camera_chassis = False, camera_main_navigation = False\<rparr>"
  "jetson_msg (refreshed (example_tick t c) s) =
     \<lparr>jetson_cpu = c, jetson_ram = 20, jetson_emmc = 50,
      jetson_nvme_ssd = 50, jetson_gpu_temp = - 1\<rparr>"
  "misc_msg (refreshed (example_tick t c) s) =
     \<lparr>arm_connection_status = False, arm_end_effector_connection_statuses = False,
      chassis_pan_tilt_connection_status = False,
      sample_containment_connection_status = False,
      tower_connection_status = False\<rparr>"
  "subscriptions (refreshed (example_tick t c) s) =
     subscriptions s @ [(IRIS_DRIVE_TOPIC_NAME, Frsky_callback)]"
proof -
  show "camera_msg (refreshed (example_tick t c) s) =
     \<lparr>camera_zed = False, camera_undercarriage = False,
      camera_chassis = False, camera_main_navigation = False\<rparr>"
    by (cases "camera_msg s") (simp add: refreshed_def pull_example)
  show "jetson_msg (refreshed (example_tick t c) s) =
     \<lparr>jetson_cpu = c, jetson_ram = 20, jetson_emmc = 50,
      jetson_nvme_ssd = 50, jetson_gpu_temp = - 1\<rparr>"
    by (cases "jetson_msg s") (simp add: refreshed_def pull_example)
  show "misc_msg (refreshed (example_tick t c) s) =
     \<lparr>arm_connection_status = False, arm_end_effector_connection_statuses = False,
      chassis_pan_tilt_connection_status = False,
      sample_containment_connection_status = False,
      tower_connection_status = False\<rparr>"
    by (simp add: refreshed_def pull_example)
  show "subscriptions (refreshed (example_tick t c) s) =
     subscriptions s @ [(IRIS_DRIVE_TOPIC_NAME, Frsky_callback)]"
    by (simp add: refreshed_def pull_example)
qed

text \<open>The node after \<open>__init__\<close> at clock reading 0, written out.\<close>

lemma example_node_eq:
  "example_node =
     \<lparr>manual_update_requested = False,
      battery_message = \<lparr>battery_voltage = 0\<rparr>,
      camera_msg = \<lparr>camera_zed = False, camera_undercarriage = False,
                    camera_chassis = False, camera_main_navigation = False\<rparr>,
      wheel_msg = \<lparr>front_left = False, middle_left = False, rear_left = False,
                   front_right = False, middle_right = False, rear_right = False\<rparr>,
      FrSky_msg = \<lparr>frsky_controller_connection_status = False\<rparr>,
      GPS_msg = \<lparr>gps_connected = False, gps_fix = False, num_satellites = 0,
                 horizontal_dilution = Finite 0, kmph = Finite 0,
                 gps_heading = Finite 0\<rparr>,
      jetson_msg = \<lparr>jetson_cpu = 10, jetson_ram = 20, jetson_emmc = 50,
                    jetson_nvme_ssd = 50, jetson_gpu_temp = - 1\<rparr>,
      misc_msg = \<lparr>arm_connection_status = False,
                  arm_end_effector_connection_statuses = False,
                  chassis_pan_tilt_connection_status = False,
                  sample_containment_connection_status = False,
                  tower_connection_status = False\<rparr>,
      previous_battery = \<lparr>battery_voltage = 0\<rparr>,
      previous_camera = \<lparr>camera_zed = False, camera_undercarriage = False,
                          camera_chassis = False, camera_main_navigation = False\<rparr>,
      previous_jetson = \<lparr>jetson_cpu = 10, jetson_ram = 20, jetson_emmc = 50,
                          jetson_nvme_ssd = 50, jetson_gpu_temp = - 1\<rparr>,
      previous_frsky = \<lparr>frsky_controller_connection_status = False\<rparr>,
      previous_wheel = \<lparr>front_left = False, middle_left = False, rear_left = False,
                         front_right = False, middle_right = False, rear_right = False\<rparr>,
      previous_gps = \<lparr>gps_connected = False, gps_fix = False, num_satellites = 0,
                       horizontal_dilution = Finite 0, kmph = Finite 0,
                 gps_heading = Finite 0\<rparr>,
      previous_misc = \<lparr>arm_connection_status = False,
                        arm_end_effector_connection_statuses = False,
                        chassis_pan_tilt_connection_status = False,
                        sample_containment_connection_status = False,
                        tower_connection_status = False\<rparr>,
      last_jetson_message_sent = 0,
      last_iris_message_sent = 0,
      subscriptions =
        [(''update_requested'', On_update_requested),
         (''/rover_control/command_control/iris_drive'', Frsky_callback),
         (''/rover_control/iris_status'', Iris_status_callback),
         (''/rover_control/drive_status/left'', Left_wheel_callback),
         (''/rover_control/drive_status/right'', Right_wheel_callback),
         (''/rover_control/drive_status/rear'', Rear_wheel_callback),
         (''/rover_odometry/gps/sentence'', Set_gps_info)]\<rparr>"
  by (simp add: example_node_def status_init_def pull_example new_node_def
      update_all_previous_values_def set_previous_eqs instantiate_subscribers_def
      create_subscription_def DEFAULT_REQUEST_UPDATE_TOPIC_NAME_def
      DEFAULT_IRIS_STATUS_TOPIC_NAME_def DEFAULT_BOGIE_LEFT_TOPIC_NAME_def
      DEFAULT_BOGIE_RIGHT_TOPIC_NAME_def DEFAULT_BOGIE_REAR_TOPIC_NAME_def
      DEFAULT_GPS_NMEA_TOPIC_NAME_def IRIS_DRIVE_TOPIC_NAME_def)

subsection \<open>Publishing on change\<close>

text \<open>
  C1, as stated, fails for the two categories with a rate ceiling. The node is started at
  clock reading 0, an Iris status with 24 volts arrives, and the timer fires at clock
  reading 3: no manual update is pending and the battery message differs from the
  previous value, yet the tick publishes no battery message, since not more than five
  seconds have passed since the stored time.
\<close>

theorem C1_publish_iff_changed_counterexample:
  "\<not> manual_update_requested
       (iris_status_callback \<lparr>iris_connected = True, voltage_24v = 24\<rparr> example_node)
   \<and> battery_message
       (refreshed (example_tick 3 10)
          (iris_status_callback \<lparr>iris_connected = True, voltage_24v = 24\<rparr> example_node))
     \<noteq> previous_battery
         (iris_status_callback \<lparr>iris_connected = True, voltage_24v = 24\<rparr> example_node)
   \<and> tick_completes (example_tick 3 10)
       (iris_status_callback \<lparr>iris_connected = True, voltage_24v = 24\<rparr> example_node)
   \<and> filter is_pub_battery
       (tick_outputs (example_tick 3 10)
          (iris_status_callback \<lparr>iris_connected = True, voltage_24v = 24\<rparr> example_node))
     = []"
  by (simp add: tick_outputs_filter battery_condition_eq)
     (simp add: iris_status_callback_def example_node_eq)

text \<open>
  C1, amended. On a tick whose refresh raises no exception and with no manual update
  pending, each of the categories camera, controller link, wheel and misc, and the GPS
  category when none of the float fields of its message is NaN, is published exactly
  when its message, as the refresh of the tick leaves it, differs from the previous
  values (a difference in one field is a difference of the messages); the publication
  carries the whole message, and after the tick the previous values are the message. The
  battery and the Jetson message are published exactly when they differ and, in
  addition, more than five seconds have passed since the stored time of the category;
  their previous values change only then. On a second tick right after the first, a
  category without rate ceiling whose message is unchanged (and, for GPS, free of NaN) is
  not published, and a category with rate ceiling whose message is unchanged is
  published at most once by the two ticks together. What the node does with a GPS
  message that holds NaN is not part of this statement.
\<close>

theorem C1_publish_iff_changed:
  assumes "tick_completes env s" and "\<not> manual_update_requested s"
  shows
    "filter is_pub_camera (tick_outputs env s) =
       (if camera_msg (refreshed env s) \<noteq> previous_camera s
        then [Pub_camera (camera_msg (refreshed env s))] else [])
     \<and> filter is_pub_frsky (tick_outputs env s) =
       (if FrSky_msg s \<noteq> previous_frsky s then [Pub_frsky (FrSky_msg s)] else [])
     \<and> filter is_pub_wheel (tick_outputs env s) =
       (if wheel_msg s \<noteq> previous_wheel s then [Pub_wheel (wheel_msg s)] else [])
     \<and> (\<not> gps_has_nan (GPS_msg s) \<longrightarrow>
          filter is_pub_gps (tick_outputs env s) =
            (if GPS_msg s \<noteq> previous_gps s then [Pub_gps (GPS_msg s)] else []))
     \<and> filter is_pub_misc (tick_outputs env s) =
       (if misc_msg (refreshed env s) \<noteq> previous_misc s
        then [Pub_misc (misc_msg (refreshed env s))] else [])
     \<and> filter is_pub_battery (tick_outputs env s) =
       (if battery_message s \<noteq> previous_battery s
           \<and> t_iris_check env - last_iris_message_sent s > 5
        then [Pub_battery (battery_message s)] else [])
     \<and> filter is_pub_jetson (tick_outputs env s) =
       (if jetson_msg (refreshed env s) \<noteq> previous_jetson s
           \<and> t_jetson_check env - last_jetson_message_sent s > 5
        then [Pub_jetson (jetson_msg (refreshed env s))] else [])
     \<and> previous_camera (tick_state env s) = camera_msg (refreshed env s)
     \<and> previous_frsky (tick_state env s) = FrSky_msg s
     \<and> previous_wheel (tick_state env s) = wheel_msg s
     \<and> previous_gps (tick_state env s) = GPS_msg s
     \<and> previous_misc (tick_state env s) = misc_msg (refreshed env s)
     \<and> previous_battery (tick_state env s) =
       (if battery_message s \<noteq> previous_battery s
           \<and> t_iris_check env - last_iris_message_sent s > 5
        then battery_message s else previous_battery s)
     \<and> previous_jetson (tick_state env s) =
       (if jetson_msg (refreshed env s) \<noteq> previous_jetson s
           \<and> t_jetson_check env - last_jetson_message_sent s > 5
        then jetson_msg (refreshed env s) else previous_jetson s)
     \<and> (tick_completes env2 (tick_state env s) \<longrightarrow>
          filter is_pub_frsky (tick_outputs env2 (tick_state env s)) = []
          \<and> filter is_pub_wheel (tick_outputs env2 (tick_state env s)) = []
          \<and> (\<not> gps_has_nan (GPS_msg s) \<longrightarrow>
               filter is_pub_gps (tick_outputs env2 (tick_state env s)) = [])
          \<and> filter is_pub_misc (tick_outputs env2 (tick_state env s)) = []
          \<and> (camera_msg (refreshed env2 (tick_state env s)) = camera_msg (refreshed env s)
               \<longrightarrow> filter is_pub_camera (tick_outputs env2 (tick_state env s)) = [])
          \<and> length (filter is_pub_battery
                      (tick_outputs env s @ tick_outputs env2 (tick_state env s))) \<le> 1
          \<and> (jetson_msg (refreshed env2 (tick_state env s)) = jetson_msg (refreshed env s)
               \<longrightarrow> length (filter is_pub_jetson
                        (tick_outputs env s @ tick_outputs env2 (tick_state env s))) \<le> 1))"
proof -
  note first = tick_outputs_filter [OF assms(1)] tick_state_fields [OF assms(1)]
  have plain: "filter is_pub_camera (tick_outputs env s) =
       (if camera_msg (refreshed env s) \<noteq> previous_camera s
        then [Pub_camera (camera_msg (refreshed env s))] else [])"
    "filter is_pub_frsky (tick_outputs env s) =
       (if FrSky_msg s \<noteq> previous_frsky s then [Pub_frsky (FrSky_msg s)] else [])"
    "filter is_pub_wheel (tick_outputs env s) =
       (if wheel_msg s \<noteq> previous_wheel s then [Pub_wheel (wheel_msg s)] else [])"
    "\<not> gps_has_nan (GPS_msg s) \<longrightarrow>
       filter is_pub_gps (tick_outputs env s) =
         (if GPS_msg s \<noteq> previous_gps s then [Pub_gps (GPS_msg s)] else [])"
    "filter is_pub_misc (tick_outputs env s) =
       (if misc_msg (refreshed env s) \<noteq> previous_misc s
        then [Pub_misc (misc_msg (refreshed env s))] else [])"
    using assms(2) by (simp_all add: first condition_eqs)
  have limited: "filter is_pub_battery (tick_outputs env s) =
       (if battery_message s \<noteq> previous_battery s
           \<and> t_iris_check env - last_iris_message_sent s > 5
        then [Pub_battery (battery_message s)] else [])"
    "filter is_pub_jetson (tick_outputs env s) =
       (if jetson_msg (refreshed env s) \<noteq> previous_jetson s
           \<and> t_jetson_check env - last_jetson_message_sent s > 5
        then [Pub_jetson (jetson_msg (refreshed env s))] else [])"
    using assms(2) by (simp_all add: first condition_eqs)
  have previous: "previous_camera (tick_state env s) = camera_msg (refreshed env s)"
    "previous_frsky (tick_state env s) = FrSky_msg s"
    "previous_wheel (tick_state env s) = wheel_msg s"
    "previous_gps (tick_state env s) = GPS_msg s"
    "previous_misc (tick_state env s) = misc_msg (refreshed env s)"
    "previous_battery (tick_state env s) =
       (if battery_message s \<noteq> previous_battery s
           \<and> t_iris_check env - last_iris_message_sent s > 5
        then battery_message s else previous_battery s)"
    "previous_jetson (tick_state env s) =
       (if jetson_msg (refreshed env s) \<noteq> previous_jetson s
           \<and> t_jetson_check env - last_jetson_message_sent s > 5
        then jetson_msg (refreshed env s) else previous_jetson s)"
    using assms(2) by (simp_all add: first condition_eqs)
  have second: "filter is_pub_frsky (tick_outputs env2 (tick_state env s)) = []
          \<and> filter is_pub_wheel (tick_outputs env2 (tick_state env s)) = []
          \<and> (\<not> gps_has_nan (GPS_msg s) \<longrightarrow>
               filter is_pub_gps (tick_outputs env2 (tick_state env s)) = [])
          \<and> filter is_pub_misc (tick_outputs env2 (tick_state env s)) = []
          \<and> (camera_msg (refreshed env2 (tick_state env s)) = camera_msg (refreshed env s)
               \<longrightarrow> filter is_pub_camera (tick_outputs env2 (tick_state env s)) = [])
          \<and> length (filter is_pub_battery
                      (tick_outputs env s @ tick_outputs env2 (tick_state env s))) \<le> 1
          \<and> (jetson_msg (refreshed env2 (tick_state env s)) = jetson_msg (refreshed env s)
               \<longrightarrow> length (filter is_pub_jetson
                        (tick_outputs env s @ tick_outputs env2 (tick_state env s))) \<le> 1)"
    if again: "tick_completes env2 (tick_state env s)"
  proof -
    have misc: "misc_msg (refreshed env2 (tick_state env s)) = misc_msg (refreshed env s)"
      by (simp add: tick_misc [OF again] tick_misc [OF assms(1)])
    show ?thesis
      using assms(2) misc
      by (simp add: tick_outputs_filter [OF again] first condition_eqs)
  qed
  from plain limited previous second show ?thesis
    by blast
qed

theorem C1_publish_iff_changed_witness:
  "filter is_pub_battery
     (tick_outputs (example_tick 6 10)
        (iris_status_callback \<lparr>iris_connected = True, voltage_24v = 24\<rparr> example_node))
   = [Pub_battery \<lparr>battery_voltage = 24\<rparr>]
   \<and> filter is_pub_camera
     (tick_outputs (example_tick 6 10)
        (iris_status_callback \<lparr>iris_connected = True, voltage_24v = 24\<rparr> example_node))
   = []
   \<and> previous_battery
     (tick_state (example_tick 6 10)
        (iris_status_callback \<lparr>iris_connected = True, voltage_24v = 24\<rparr> example_node))
   = \<lparr>battery_voltage = 24\<rparr>
   \<and> filter is_pub_camera
     (tick_outputs (example_tick 7 10)
        (tick_state (example_tick 6 10)
           (iris_status_callback \<lparr>iris_connected = True, voltage_24v = 24\<rparr> example_node)))
   = []
   \<and> filter is_pub_gps
     (tick_outputs (example_tick 6 10)
        (iris_status_callback \<lparr>iris_connected = True, voltage_24v = 24\<rparr> example_node))
   = []
   \<and> filter is_pub_gps
     (tick_outputs (example_tick 7 10)
        (tick_state (example_tick 6 10)
           (iris_status_callback \<lparr>iris_connected = True, voltage_24v = 24\<rparr> example_node)))
   = []"
  using C1_publish_iff_changed
          [of "example_tick 6 10"
              "iris_status_callback \<lparr>iris_connected = True, voltage_24v = 24\<rparr> example_node"
              "example_tick 7 10"]
  by (simp add: iris_status_callback_def example_node_eq gps_has_nan_def)

subsection \<open>The rate ceiling\<close>

lemma list_ex_filter: "list_ex P xs \<longleftrightarrow> filter P xs \<noteq> []"
  by (induction xs) simp_all

lemma status_main_loop_tick:
  assumes "tick_completes env s"
  shows "status_main_loop env s = Inr (tick_state env s, tick_outputs env s)"
  using assms
  by (auto simp add: tick_completes_def tick_state_def tick_outputs_def split: sum.splits)

text \<open>The callbacks leave the stored times alone.\<close>

lemma set_gps_info_frame:
  "last_iris_message_sent (snd (set_gps_info data s)) = last_iris_message_sent s"
  "last_jetson_message_sent (snd (set_gps_info data s)) = last_jetson_message_sent s"
  by (simp_all add: set_gps_info_def Let_def
      split: option.splits nmea_message.splits sum.splits)

text \<open>
  One event: the stored time of the battery category changes only when a tick publishes
  the battery message, to the clock read after the publication; and a tick publishes it
  only when the clock read at the check is more than five seconds past the stored time.
\<close>

lemma step_battery_time:
  assumes "status_step ev s = Inr (s1, outs)"
  shows "(case ev of
            Timer env \<Rightarrow>
              (if list_ex is_pub_battery outs
               then last_iris_message_sent s1 = t_iris_sent env
                    \<and> t_iris_check env - last_iris_message_sent s > 5
               else last_iris_message_sent s1 = last_iris_message_sent s)
          | other \<Rightarrow> last_iris_message_sent s1 = last_iris_message_sent s)"
proof (cases ev)
  case (Timer env)
  with assms have run: "tick_completes env s" "s1 = tick_state env s" "outs = tick_outputs env s"
    by (simp_all add: status_main_loop_Inr)
  show ?thesis
    by (simp add: Timer run(2,3) list_ex_filter tick_outputs_filter [OF run(1)]
        tick_state_fields [OF run(1)])
next
  case (GPS_sentence_received data)
  with assms show ?thesis
    using set_gps_info_frame(1) [of data s]
    by (auto split: prod.splits option.splits)
qed (use assms in \<open>auto simp add: on_update_requested_def iris_status_callback_def
      left_wheel_callback_def right_wheel_callback_def rear_wheel_callback_def
      frsky_callback_def\<close>)

lemma step_jetson_time:
  assumes "status_step ev s = Inr (s1, outs)"
  shows "(case ev of
            Timer env \<Rightarrow>
              (if list_ex is_pub_jetson outs
               then last_jetson_message_sent s1 = t_jetson_sent env
                    \<and> t_jetson_check env - last_jetson_message_sent s > 5
               else last_jetson_message_sent s1 = last_jetson_message_sent s)
          | other \<Rightarrow> last_jetson_message_sent s1 = last_jetson_message_sent s)"
proof (cases ev)
  case (Timer env)
  with assms have run: "tick_completes env s" "s1 = tick_state env s" "outs = tick_outputs env s"
    by (simp_all add: status_main_loop_Inr)
  show ?thesis
    by (simp add: Timer run(2,3) list_ex_filter tick_outputs_filter [OF run(1)]
        tick_state_fields [OF run(1)])
next
  case (GPS_sentence_received data)
  with assms show ?thesis
    using set_gps_info_frame(2) [of data s]
    by (auto split: prod.splits option.splits)
qed (use assms in \<open>auto simp add: on_update_requested_def iris_status_callback_def
      left_wheel_callback_def right_wheel_callback_def rear_wheel_callback_def
      frsky_callback_def\<close>)

text \<open>
  Every publication of a run comes more than five seconds after the time stored at the
  start of the run.
\<close>

lemma battery_publish_times_after:
  assumes "list_all clock_ordered evs"
      and "p \<in> set (battery_publish_times evs s)"
  shows "fst p - last_iris_message_sent s > 5 \<and> fst p \<le> snd p"
  using assms
proof (induction evs arbitrary: s)
  case Nil
  then show ?case by simp
next
  case (Cons ev evs)
  show ?case
  proof (cases "status_step ev s")
    case (Inl e)
    with Cons.prems show ?thesis by simp
  next
    case (Inr r)
    obtain s1 outs where r: "r = (s1, outs)" by (cases r)
    note step = step_battery_time [OF Inr [unfolded r]]
    from Cons.prems(1) have ordered: "clock_ordered ev" "list_all clock_ordered evs"
      by simp_all
    show ?thesis
    proof (cases "p \<in> set (battery_publish_times evs s1)")
      case True
      from Cons.IH [OF ordered(2) True]
      have later: "fst p - last_iris_message_sent s1 > 5" "fst p \<le> snd p"
        by simp_all
      have "last_iris_message_sent s \<le> last_iris_message_sent s1"
        using step ordered(1) by (cases ev) (auto split: if_splits)
      with later show ?thesis by simp
    next
      case False
      with Cons.prems(2) Inr r obtain env where
        ev: "ev = Timer env" and pub: "list_ex is_pub_battery outs"
        and p: "p = (t_iris_check env, t_iris_sent env)"
        by (cases ev) (auto split: if_splits)
      from step ev pub ordered(1) p show ?thesis by simp
    qed
  qed
qed

lemma jetson_publish_times_after:
  assumes "list_all clock_ordered evs"
      and "p \<in> set (jetson_publish_times evs s)"
  shows "fst p - last_jetson_message_sent s > 5 \<and> fst p \<le> snd p"
  using assms
proof (induction evs arbitrary: s)
  case Nil
  then show ?case by simp
next
  case (Cons ev evs)
  show ?case
  proof (cases "status_step ev s")
    case (Inl e)
    with Cons.prems show ?thesis by simp
  next
    case (Inr r)
    obtain s1 outs where r: "r = (s1, outs)" by (cases r)
    note step = step_jetson_time [OF Inr [unfolded r]]
    from Cons.prems(1) have ordered: "clock_ordered ev" "list_all clock_ordered evs"
      by simp_all
    show ?thesis
    proof (cases "p \<in> set (jetson_publish_times evs s1)")
      case True
      from Cons.IH [OF ordered(2) True]
      have later: "fst p - last_jetson_message_sent s1 > 5" "fst p \<le> snd p"
        by simp_all
      have "last_jetson_message_sent s \<le> last_jetson_message_sent s1"
        using step ordered(1) by (cases ev) (auto split: if_splits)
      with later show ?thesis by simp
    next
      case False
      with Cons.prems(2) Inr r obtain env where
        ev: "ev = Timer env" and pub: "list_ex is_pub_jetson outs"
        and p: "p = (t_jetson_check env, t_jetson_sent env)"
        by (cases ev) (auto split: if_splits)
      from step ev pub ordered(1) p show ?thesis by simp
    qed
  qed
qed

text \<open>Any two publications of a run are more than five seconds apart.\<close>

lemma battery_publish_times_apart:
  assumes "list_all clock_ordered evs"
  shows "sorted_wrt apart (battery_publish_times evs s)"
  using assms
proof (induction evs arbitrary: s)
  case Nil
  then show ?case by simp
next
  case (Cons ev evs)
  show ?case
  proof (cases "status_step ev s")
    case (Inl e)
    then show ?thesis by simp
  next
    case (Inr r)
    obtain s1 outs where r: "r = (s1, outs)" by (cases r)
    note step = step_battery_time [OF Inr [unfolded r]]
    from Cons.prems have ordered: "clock_ordered ev" "list_all clock_ordered evs"
      by simp_all
    have rest: "sorted_wrt apart (battery_publish_times evs s1)"
      by (rule Cons.IH [OF ordered(2)])
    have head: "apart (t_iris_check env, t_iris_sent env) p"
      if "ev = Timer env" "list_ex is_pub_battery outs"
        "p \<in> set (battery_publish_times evs s1)" for env p
    proof -
      from step that(1,2) have "last_iris_message_sent s1 = t_iris_sent env"
        by simp
      with battery_publish_times_after [OF ordered(2) that(3)] show ?thesis
        by (cases p) simp
    qed
    have unfold: "battery_publish_times (ev # evs) s =
        (case ev of
           Timer env \<Rightarrow>
             (if list_ex is_pub_battery outs then [(t_iris_check env, t_iris_sent env)] else [])
         | other \<Rightarrow> [])
        @ battery_publish_times evs s1"
      by (simp add: Inr r)
    from rest head show ?thesis
      unfolding unfold by (cases ev) (auto simp add: sorted_wrt_append)
  qed
qed

lemma jetson_publish_times_apart:
  assumes "list_all clock_ordered evs"
  shows "sorted_wrt apart (jetson_publish_times evs s)"
  using assms
proof (induction evs arbitrary: s)
  case Nil
  then show ?case by simp
next
  case (Cons ev evs)
  show ?case
  proof (cases "status_step ev s")
    case (Inl e)
    then show ?thesis by simp
  next
    case (Inr r)
    obtain s1 outs where r: "r = (s1, outs)" by (cases r)
    note step = step_jetson_time [OF Inr [unfolded r]]
    from Cons.prems have ordered: "clock_ordered ev" "list_all clock_ordered evs"
      by simp_all
    have rest: "sorted_wrt apart (jetson_publish_times evs s1)"
      by (rule Cons.IH [OF ordered(2)])
    have head: "apart (t_jetson_check env, t_jetson_sent env) p"
      if "ev = Timer env" "list_ex is_pub_jetson outs"
        "p \<in> set (jetson_publish_times evs s1)" for env p
    proof -
      from step that(1,2) have "last_jetson_message_sent s1 = t_jetson_sent env"
        by simp
      with jetson_publish_times_after [OF ordered(2) that(3)] show ?thesis
        by (cases p) simp
    qed
    have unfold: "jetson_publish_times (ev # evs) s =
        (case ev of
           Timer env \<Rightarrow>
             (if list_ex is_pub_jetson outs then [(t_jetson_check env, t_jetson_sent env)] else [])
         | other \<Rightarrow> [])
        @ jetson_publish_times evs s1"
      by (simp add: Inr r)
    from rest head show ?thesis
      unfolding unfold by (cases ev) (auto simp add: sorted_wrt_append)
  qed
qed

text \<open>
  C2. Both rate ceilings are 0.2 Hz, a window of five seconds. A tick whose clock at the
  rate check is not more than five seconds past the stored time of the category
  publishes no message of the category, changed or not, and leaves the previous values
  and the stored time as they are: nothing is queued, the message itself is the only
  copy of the value, and the next tick compares whatever it then holds with the same
  previous values. A tick whose clock is more than five seconds past the stored time
  publishes the message if it differs from the previous values, and stores the new
  previous values and the time. Over any sequence of ticks and messages in which the
  clock does not run backwards within a tick, any two publications of the category are
  more than five seconds apart. Clock readings are read as real numbers.
\<close>

theorem C2_rate_ceiling:
  "1 / MAX_IRIS_UPDATE_HERTZ = 5 \<and> 1 / MAX_JETSON_UPDATE_HERTZ = 5
   \<and> (tick_completes env s \<and> t_iris_check env - last_iris_message_sent s \<le> 5 \<longrightarrow>
        filter is_pub_battery (tick_outputs env s) = []
        \<and> previous_battery (tick_state env s) = previous_battery s
        \<and> last_iris_message_sent (tick_state env s) = last_iris_message_sent s
        \<and> battery_message (tick_state env s) = battery_message s)
   \<and> (tick_completes env s \<and> t_iris_check env - last_iris_message_sent s > 5
        \<and> battery_message s \<noteq> previous_battery s \<longrightarrow>
        filter is_pub_battery (tick_outputs env s) = [Pub_battery (battery_message s)]
        \<and> previous_battery (tick_state env s) = battery_message s
        \<and> last_iris_message_sent (tick_state env s) = t_iris_sent env)
   \<and> (tick_completes env s \<and> t_jetson_check env - last_jetson_message_sent s \<le> 5 \<longrightarrow>
        filter is_pub_jetson (tick_outputs env s) = []
        \<and> previous_jetson (tick_state env s) = previous_jetson s
        \<and> last_jetson_message_sent (tick_state env s) = last_jetson_message_sent s)
   \<and> (tick_completes env s \<and> t_jetson_check env - last_jetson_message_sent s > 5
        \<and> jetson_msg (refreshed env s) \<noteq> previous_jetson s \<longrightarrow>
        filter is_pub_jetson (tick_outputs env s) = [Pub_jetson (jetson_msg (refreshed env s))]
        \<and> previous_jetson (tick_state env s) = jetson_msg (refreshed env s)
        \<and> last_jetson_message_sent (tick_state env s) = t_jetson_sent env)
   \<and> (list_all clock_ordered evs \<longrightarrow>
        sorted_wrt apart (battery_publish_times evs s0)
        \<and> sorted_wrt apart (jetson_publish_times evs s0))"
proof -
  have tick: "filter is_pub_battery (tick_outputs env s) = []
        \<and> previous_battery (tick_state env s) = previous_battery s
        \<and> last_iris_message_sent (tick_state env s) = last_iris_message_sent s
        \<and> battery_message (tick_state env s) = battery_message s"
    if "tick_completes env s" "t_iris_check env - last_iris_message_sent s \<le> 5"
    using that(2) by (simp add: tick_outputs_filter [OF that(1)] tick_state_fields [OF that(1)])
  have tock: "filter is_pub_battery (tick_outputs env s) = [Pub_battery (battery_message s)]
        \<and> previous_battery (tick_state env s) = battery_message s
        \<and> last_iris_message_sent (tick_state env s) = t_iris_sent env"
    if "tick_completes env s" "t_iris_check env - last_iris_message_sent s > 5"
      "battery_message s \<noteq> previous_battery s"
    using that(2,3)
    by (simp add: tick_outputs_filter [OF that(1)] tick_state_fields [OF that(1)]
        condition_eqs)
  have jick: "filter is_pub_jetson (tick_outputs env s) = []
        \<and> previous_jetson (tick_state env s) = previous_jetson s
        \<and> last_jetson_message_sent (tick_state env s) = last_jetson_message_sent s"
    if "tick_completes env s" "t_jetson_check env - last_jetson_message_sent s \<le> 5"
    using that(2) by (simp add: tick_outputs_filter [OF that(1)] tick_state_fields [OF that(1)])
  have jock: "filter is_pub_jetson (tick_outputs env s) = [Pub_jetson (jetson_msg (refreshed env s))]
        \<and> previous_jetson (tick_state env s) = jetson_msg (refreshed env s)
        \<and> last_jetson_message_sent (tick_state env s) = t_jetson_sent env"
    if "tick_completes env s" "t_jetson_check env - last_jetson_message_sent s > 5"
      "jetson_msg (refreshed env s) \<noteq> previous_jetson s"
    using that(2,3)
    by (simp add: tick_outputs_filter [OF that(1)] tick_state_fields [OF that(1)]
        condition_eqs)
  from tick tock jick jock battery_publish_times_apart [of evs s0]
    jetson_publish_times_apart [of evs s0] rate_window
  show ?thesis
    by blast
qed

theorem C2_rate_ceiling_witness:
  "filter is_pub_battery
     (tick_outputs (example_tick 3 30)
        (iris_status_callback \<lparr>iris_connected = True, voltage_24v = 24\<rparr> example_node))
   = []
   \<and> filter is_pub_jetson
     (tick_outputs (example_tick 3 30)
        (iris_status_callback \<lparr>iris_connected = True, voltage_24v = 24\<rparr> example_node))
   = []
   \<and> filter is_pub_battery
     (tick_outputs (example_tick 6 30)
        (iris_status_callback \<lparr>iris_connected = True, voltage_24v = 24\<rparr> example_node))
   = [Pub_battery \<lparr>battery_voltage = 24\<rparr>]
   \<and> filter is_pub_jetson
     (tick_outputs (example_tick 6 30)
        (iris_status_callback \<lparr>iris_connected = True, voltage_24v = 24\<rparr> example_node))
   = [Pub_jetson \<lparr>jetson_cpu = 30, jetson_ram = 20, jetson_emmc = 50,
                  jetson_nvme_ssd = 50, jetson_gpu_temp = - 1\<rparr>]
   \<and> list_all clock_ordered
     [Iris_status_received \<lparr>iris_connected = True, voltage_24v = 24\<rparr>,
      Timer (example_tick 6 30),
      Iris_status_received \<lparr>iris_connected = True, voltage_24v = 25\<rparr>,
      Timer (example_tick 8 40),
      Timer (example_tick 12 50)]
   \<and> battery_publish_times
     [Iris_status_received \<lparr>iris_connected = True, voltage_24v = 24\<rparr>,
      Timer (example_tick 6 30),
      Iris_status_received \<lparr>iris_connected = True, voltage_24v = 25\<rparr>,
      Timer (example_tick 8 40),
      Timer (example_tick 12 50)] example_node
   = [(6, 6), (12, 12)]
   \<and> jetson_publish_times
     [Iris_status_received \<lparr>iris_connected = True, voltage_24v = 24\<rparr>,
      Timer (example_tick 6 30),
      Iris_status_received \<lparr>iris_connected = True, voltage_24v = 25\<rparr>,
      Timer (example_tick 8 40),
      Timer (example_tick 12 50)] example_node
   = [(6, 6), (12, 12)]
   \<and> sorted_wrt apart
     (battery_publish_times
        [Iris_status_received \<lparr>iris_connected = True, voltage_24v = 24\<rparr>,
         Timer (example_tick 6 30),
         Iris_status_received \<lparr>iris_connected = True, voltage_24v = 25\<rparr>,
         Timer (example_tick 8 40),
         Timer (example_tick 12 50)] example_node)"
proof -
  have times: "battery_publish_times
     [Iris_status_received \<lparr>iris_connected = True, voltage_24v = 24\<rparr>,
      Timer (example_tick 6 30),
      Iris_status_received \<lparr>iris_connected = True, voltage_24v = 25\<rparr>,
      Timer (example_tick 8 40),
      Timer (example_tick 12 50)] example_node
   = [(6, 6), (12, 12)]"
    "jetson_publish_times
     [Iris_status_received \<lparr>iris_connected = True, voltage_24v = 24\<rparr>,
      Timer (example_tick 6 30),
      Iris_status_received \<lparr>iris_connected = True, voltage_24v = 25\<rparr>,
      Timer (example_tick 8 40),
      Timer (example_tick 12 50)] example_node
   = [(6, 6), (12, 12)]"
    by (simp_all add: status_main_loop_tick list_ex_filter tick_outputs_filter
        tick_state_fields condition_eqs iris_status_callback_def example_node_eq)
  have ordered: "list_all clock_ordered
     [Iris_status_received \<lparr>iris_connected = True, voltage_24v = 24\<rparr>,
      Timer (example_tick 6 30),
      Iris_status_received \<lparr>iris_connected = True, voltage_24v = 25\<rparr>,
      Timer (example_tick 8 40),
      Timer (example_tick 12 50)]"
    by simp
  have started: "last_iris_message_sent
       (iris_status_callback \<lparr>iris_connected = True, voltage_24v = 24\<rparr> example_node) = 0"
    "last_jetson_message_sent
       (iris_status_callback \<lparr>iris_connected = True, voltage_24v = 24\<rparr> example_node) = 0"
    "battery_message
       (iris_status_callback \<lparr>iris_connected = True, voltage_24v = 24\<rparr> example_node)
       = \<lparr>battery_voltage = 24\<rparr>"
    "previous_battery
       (iris_status_callback \<lparr>iris_connected = True, voltage_24v = 24\<rparr> example_node)
       = \<lparr>battery_voltage = 0\<rparr>"
    "previous_jetson
       (iris_status_callback \<lparr>iris_connected = True, voltage_24v = 24\<rparr> example_node)
       = \<lparr>jetson_cpu = 10, jetson_ram = 20, jetson_emmc = 50,
          jetson_nvme_ssd = 50, jetson_gpu_temp = - 1\<rparr>"
    by (simp_all add: iris_status_callback_def example_node_eq)
  from C2_rate_ceiling
         [of "example_tick 3 30"
             "iris_status_callback \<lparr>iris_connected = True, voltage_24v = 24\<rparr> example_node"
             "[Iris_status_received \<lparr>iris_connected = True, voltage_24v = 24\<rparr>,
               Timer (example_tick 6 30),
               Iris_status_received \<lparr>iris_connected = True, voltage_24v = 25\<rparr>,
               Timer (example_tick 8 40),
               Timer (example_tick 12 50)]"
             example_node]
       C2_rate_ceiling
         [of "example_tick 6 30"
             "iris_status_callback \<lparr>iris_connected = True, voltage_24v = 24\<rparr> example_node"
             "[]" example_node]
       times ordered
  show ?thesis
    by (simp add: started)
qed

subsection \<open>The manual update\<close>

text \<open>
  C3, as stated, fails for the two categories with a rate ceiling: the manual update flag
  stands in for a change, it does not pass the rate check. The node is started at clock
  reading 0, an update is requested, and the timer fires at clock reading 3: the tick
  publishes neither the battery nor the Jetson message.
\<close>

theorem C3_manual_update_counterexample:
  "manual_update_requested (on_update_requested example_node)
   \<and> tick_completes (example_tick 3 10) (on_update_requested example_node)
   \<and> filter is_pub_battery
       (tick_outputs (example_tick 3 10) (on_update_requested example_node)) = []
   \<and> filter is_pub_jetson
       (tick_outputs (example_tick 3 10) (on_update_requested example_node)) = []"
  by (simp add: tick_outputs_filter)
     (simp add: on_update_requested_def example_node_eq)

text \<open>
  C3, amended. The update request sets the flag. On the next tick whose refresh raises
  no exception, the camera, controller link, wheel and misc messages are published
  exactly once each, equal to the previous values or not; the battery and the Jetson
  message are published exactly once if more than five seconds have passed since the
  stored time of the category, and not at all otherwise; the flag is cleared at the end
  of the tick. A tick right after it publishes no controller link, wheel or misc
  message, no GPS message if none of the float fields of the GPS message is NaN, no
  camera message if the camera message is unchanged, and no battery or Jetson message
  that the first tick published and that is unchanged. What the first tick does with
  the GPS message, and what the node does with a GPS message that holds NaN, is not part
  of this statement.
\<close>

theorem C3_manual_update:
  assumes "tick_completes env s" and "manual_update_requested s"
  shows
    "manual_update_requested (on_update_requested s0)
     \<and> filter is_pub_camera (tick_outputs env s) = [Pub_camera (camera_msg (refreshed env s))]
     \<and> filter is_pub_frsky (tick_outputs env s) = [Pub_frsky (FrSky_msg s)]
     \<and> filter is_pub_wheel (tick_outputs env s) = [Pub_wheel (wheel_msg s)]
     \<and> filter is_pub_misc (tick_outputs env s) = [Pub_misc (misc_msg (refreshed env s))]
     \<and> filter is_pub_battery (tick_outputs env s) =
         (if t_iris_check env - last_iris_message_sent s > 5
          then [Pub_battery (battery_message s)] else [])
     \<and> filter is_pub_jetson (tick_outputs env s) =
         (if t_jetson_check env - last_jetson_message_sent s > 5
          then [Pub_jetson (jetson_msg (refreshed env s))] else [])
     \<and> \<not> manual_update_requested (tick_state env s)
     \<and> (tick_completes env2 (tick_state env s) \<longrightarrow>
          filter is_pub_frsky (tick_outputs env2 (tick_state env s)) = []
          \<and> filter is_pub_wheel (tick_outputs env2 (tick_state env s)) = []
          \<and> filter is_pub_misc (tick_outputs env2 (tick_state env s)) = []
          \<and> (\<not> gps_has_nan (GPS_msg s) \<longrightarrow>
               filter is_pub_gps (tick_outputs env2 (tick_state env s)) = [])
          \<and> (camera_msg (refreshed env2 (tick_state env s)) = camera_msg (refreshed env s)
               \<longrightarrow> filter is_pub_camera (tick_outputs env2 (tick_state env s)) = [])
          \<and> (t_iris_check env - last_iris_message_sent s > 5
               \<longrightarrow> filter is_pub_battery (tick_outputs env2 (tick_state env s)) = [])
          \<and> (t_jetson_check env - last_jetson_message_sent s > 5
               \<and> jetson_msg (refreshed env2 (tick_state env s)) = jetson_msg (refreshed env s)
               \<longrightarrow> filter is_pub_jetson (tick_outputs env2 (tick_state env s)) = []))"
proof -
  note first = tick_outputs_filter [OF assms(1)] tick_state_fields [OF assms(1)]
  have requested: "manual_update_requested (on_update_requested s0)"
    by (simp add: on_update_requested_def)
  have forced: "filter is_pub_camera (tick_outputs env s) = [Pub_camera (camera_msg (refreshed env s))]"
    "filter is_pub_frsky (tick_outputs env s) = [Pub_frsky (FrSky_msg s)]"
    "filter is_pub_wheel (tick_outputs env s) = [Pub_wheel (wheel_msg s)]"
    "filter is_pub_misc (tick_outputs env s) = [Pub_misc (misc_msg (refreshed env s))]"
    using assms(2) by (simp_all add: first condition_eqs)
  have limited: "filter is_pub_battery (tick_outputs env s) =
         (if t_iris_check env - last_iris_message_sent s > 5
          then [Pub_battery (battery_message s)] else [])"
    "filter is_pub_jetson (tick_outputs env s) =
         (if t_jetson_check env - last_jetson_message_sent s > 5
          then [Pub_jetson (jetson_msg (refreshed env s))] else [])"
    using assms(2) by (simp_all add: first condition_eqs)
  have cleared: "\<not> manual_update_requested (tick_state env s)"
    by (simp add: first)
  have second: "filter is_pub_frsky (tick_outputs env2 (tick_state env s)) = []
          \<and> filter is_pub_wheel (tick_outputs env2 (tick_state env s)) = []
          \<and> filter is_pub_misc (tick_outputs env2 (tick_state env s)) = []
          \<and> (\<not> gps_has_nan (GPS_msg s) \<longrightarrow>
               filter is_pub_gps (tick_outputs env2 (tick_state env s)) = [])
          \<and> (camera_msg (refreshed env2 (tick_state env s)) = camera_msg (refreshed env s)
               \<longrightarrow> filter is_pub_camera (tick_outputs env2 (tick_state env s)) = [])
          \<and> (t_iris_check env - last_iris_message_sent s > 5
               \<longrightarrow> filter is_pub_battery (tick_outputs env2 (tick_state env s)) = [])
          \<and> (t_jetson_check env - last_jetson_message_sent s > 5
               \<and> jetson_msg (refreshed env2 (tick_state env s)) = jetson_msg (refreshed env s)
               \<longrightarrow> filter is_pub_jetson (tick_outputs env2 (tick_state env s)) = [])"
    if again: "tick_completes env2 (tick_state env s)"
  proof -
    have misc: "misc_msg (refreshed env2 (tick_state env s)) = misc_msg (refreshed env s)"
      by (simp add: tick_misc [OF again] tick_misc [OF assms(1)])
    show ?thesis
      using assms(2) misc
      by (simp add: tick_outputs_filter [OF again] first condition_eqs)
  qed
  from requested forced limited cleared second show ?thesis
    by blast
qed

theorem C3_manual_update_witness:
  "filter is_pub_camera (tick_outputs (example_tick 6 10) (on_update_requested example_node))
   = [Pub_camera \<lparr>camera_zed = False, camera_undercarriage = False,
                  camera_chassis = False, camera_main_navigation = False\<rparr>]
   \<and> filter is_pub_battery (tick_outputs (example_tick 6 10) (on_update_requested example_node))
   = [Pub_battery \<lparr>battery_voltage = 0\<rparr>]
   \<and> filter is_pub_jetson (tick_outputs (example_tick 6 10) (on_update_requested example_node))
   = [Pub_jetson \<lparr>jetson_cpu = 10, jetson_ram = 20, jetson_emmc = 50,
                  jetson_nvme_ssd = 50, jetson_gpu_temp = - 1\<rparr>]
   \<and> \<not> manual_update_requested
         (tick_state (example_tick 6 10) (on_update_requested example_node))
   \<and> filter is_pub_camera
       (tick_outputs (example_tick 7 10)
          (tick_state (example_tick 6 10) (on_update_requested example_node))) = []
   \<and> filter is_pub_battery
       (tick_outputs (example_tick 7 10)
          (tick_state (example_tick 6 10) (on_update_requested example_node))) = []
   \<and> filter is_pub_jetson
       (tick_outputs (example_tick 7 10)
          (tick_state (example_tick 6 10) (on_update_requested example_node))) = []
   \<and> filter is_pub_gps
       (tick_outputs (example_tick 7 10)
          (tick_state (example_tick 6 10) (on_update_requested example_node))) = []"
  using C3_manual_update
          [of "example_tick 6 10" "on_update_requested example_node" example_node
              "example_tick 7 10"]
  by (simp add: on_update_requested_def example_node_eq gps_has_nan_def)

text \<open>
  The condition of the GPS block does not read the flag: on the tick after an update
  request the GPS message is not published when it is unchanged.
\<close>

lemma manual_update_gps_example:
  "filter is_pub_gps (tick_outputs (example_tick 6 10) (on_update_requested example_node)) = []"
  by (simp add: tick_outputs_filter condition_eqs)
     (simp add: on_update_requested_def example_node_eq gps_has_nan_def)

text \<open>
  A GPS message with NaN in a float field differs from its own copy under \<open>!=\<close>: every
  tick that completes publishes it.
\<close>

lemma gps_nan_published:
  assumes "tick_completes env s" and "gps_has_nan (GPS_msg s)"
  shows "filter is_pub_gps (tick_outputs env s) = [Pub_gps (GPS_msg s)]"
    and "gps_has_nan (GPS_msg (tick_state env s))"
  using assms(2)
  by (simp_all add: tick_outputs_filter [OF assms(1)] tick_state_fields [OF assms(1)]
      condition_eqs)

subsection \<open>The refresh\<close>

text \<open>
  A refresh that completes prints one line and publishes nothing.
\<close>

lemma refresh_publishes_nothing:
  assumes "pull_new_message_values env s = Inr (s1, outs)"
  shows "\<not> list_ex is_publication outs"
  using assms
  by (auto simp add: pull_new_message_values_eq split: sum.splits sensors_outcome.splits)

text \<open>
  C9: the code is not idempotent. The node started at clock reading 0 holds seven
  subscriptions, the one to the drive command topic among them. One refresh adds a
  second subscription to that topic, a second refresh a third: the state after two
  refreshes is not the state after one, and every call acquires a resource. The messages
  are the same after one refresh and after two, and the refresh publishes nothing.
\<close>

theorem C9_refresh_adds_subscription:
  "length (subscriptions example_node) = 7
   \<and> subscriptions (refreshed (example_tick 1 10) example_node)
       = subscriptions example_node
         @ [(''/rover_control/command_control/iris_drive'', Frsky_callback)]
   \<and> subscriptions (refreshed (example_tick 1 10) (refreshed (example_tick 1 10) example_node))
       = subscriptions example_node
         @ [(''/rover_control/command_control/iris_drive'', Frsky_callback),
            (''/rover_control/command_control/iris_drive'', Frsky_callback)]
   \<and> refreshed (example_tick 1 10) (refreshed (example_tick 1 10) example_node)
       \<noteq> refreshed (example_tick 1 10) example_node
   \<and> pull_new_message_values (example_tick 1 10) example_node
       = Inr (refreshed (example_tick 1 10) example_node, [Print_sensors_failed])
   \<and> camera_msg (refreshed (example_tick 1 10) (refreshed (example_tick 1 10) example_node))
       = camera_msg (refreshed (example_tick 1 10) example_node)
   \<and> jetson_msg (refreshed (example_tick 1 10) (refreshed (example_tick 1 10) example_node))
       = jetson_msg (refreshed (example_tick 1 10) example_node)
   \<and> misc_msg (refreshed (example_tick 1 10) (refreshed (example_tick 1 10) example_node))
       = misc_msg (refreshed (example_tick 1 10) example_node)"
proof -
  have same: "camera_msg
         (refreshed (example_tick 1 10) (refreshed (example_tick 1 10) example_node))
       = camera_msg (refreshed (example_tick 1 10) example_node)"
    "jetson_msg (refreshed (example_tick 1 10) (refreshed (example_tick 1 10) example_node))
       = jetson_msg (refreshed (example_tick 1 10) example_node)"
    "misc_msg (refreshed (example_tick 1 10) (refreshed (example_tick 1 10) example_node))
       = misc_msg (refreshed (example_tick 1 10) example_node)"
    by simp_all
  have once: "subscriptions (refreshed (example_tick 1 10) example_node)
       = subscriptions example_node
         @ [(''/rover_control/command_control/iris_drive'', Frsky_callback)]"
    by (simp add: IRIS_DRIVE_TOPIC_NAME_def)
  have twice: "subscriptions
         (refreshed (example_tick 1 10) (refreshed (example_tick 1 10) example_node))
       = subscriptions example_node
         @ [(''/rover_control/command_control/iris_drive'', Frsky_callback),
            (''/rover_control/command_control/iris_drive'', Frsky_callback)]"
    by (simp add: IRIS_DRIVE_TOPIC_NAME_def)
  have differ: "refreshed (example_tick 1 10) (refreshed (example_tick 1 10) example_node)
       \<noteq> refreshed (example_tick 1 10) example_node"
  proof
    assume "refreshed (example_tick 1 10) (refreshed (example_tick 1 10) example_node)
       = refreshed (example_tick 1 10) example_node"
    then have "subscriptions
         (refreshed (example_tick 1 10) (refreshed (example_tick 1 10) example_node))
       = subscriptions (refreshed (example_tick 1 10) example_node)"
      by simp
    then show False
      by (simp only: once twice) simp
  qed
  have seven: "length (subscriptions example_node) = 7"
    by (simp add: example_node_eq)
  have pull: "pull_new_message_values (example_tick 1 10) example_node
       = Inr (refreshed (example_tick 1 10) example_node, [Print_sensors_failed])"
    by (simp add: tick_completes_pull)
  from seven once twice differ pull same show ?thesis
    by blast
qed

subsection \<open>The GPS connected flag\<close>

lemma set_gps_info_connected:
  "gps_connected (GPS_msg (snd (set_gps_info data s)))"
  by (simp add: set_gps_info_def Let_def
      split: option.splits nmea_message.splits sum.splits)

text \<open>One event keeps the flag, and a GPS message it publishes carries it.\<close>

lemma step_gps_connected:
  assumes "status_step ev s = Inr (s1, outs)" and "gps_connected (GPS_msg s)"
  shows "gps_connected (GPS_msg s1) \<and> list_all reports_gps_connected outs"
proof (cases ev)
  case (Timer env)
  with assms have run: "tick_completes env s" "s1 = tick_state env s" "outs = tick_outputs env s"
    by (simp_all add: status_main_loop_Inr)
  show ?thesis
    using assms(2)
    by (simp add: run(2,3) tick_outputs_eq [OF run(1)] tick_state_fields [OF run(1)])
next
  case (GPS_sentence_received data)
  with assms show ?thesis
    using set_gps_info_connected [of data s]
    by (auto split: prod.splits option.splits)
qed (use assms in \<open>auto simp add: on_update_requested_def iris_status_callback_def
      left_wheel_callback_def right_wheel_callback_def rear_wheel_callback_def
      frsky_callback_def\<close>)

lemma run_gps_connected:
  assumes "gps_connected (GPS_msg s)"
  shows "list_all reports_gps_connected (status_run evs s)"
  using assms
proof (induction evs arbitrary: s)
  case Nil
  then show ?case by simp
next
  case (Cons ev evs)
  show ?case
  proof (cases "status_step ev s")
    case (Inl e)
    then show ?thesis by simp
  next
    case (Inr r)
    obtain s1 outs where r: "r = (s1, outs)" by (cases r)
    from step_gps_connected [OF Inr [unfolded r] Cons.prems] Cons.IH [of s1]
    show ?thesis
      by (simp add: Inr r)
  qed
qed

text \<open>
  C10. \<open>__set_gps_info\<close> leaves the connected flag set for every sentence, one that
  fails to parse or whose fields fail to convert included. No event clears it: a set flag
  is still set after any event the node survives. So in every run that starts with the
  arrival of a sentence, and in every run from a state with the flag set, each GPS
  message published says connected.
\<close>

theorem C10_gps_connected_monotone:
  "gps_connected (GPS_msg (snd (set_gps_info data s)))
   \<and> list_all reports_gps_connected (status_run (GPS_sentence_received data # evs) s)
   \<and> (gps_connected (GPS_msg s) \<and> status_step ev s = Inr (s1, outs) \<longrightarrow>
        gps_connected (GPS_msg s1))
   \<and> (gps_connected (GPS_msg s) \<longrightarrow> list_all reports_gps_connected (status_run evs s))"
proof -
  have arrival: "list_all reports_gps_connected
                   (status_run (GPS_sentence_received data # evs) s)"
    using run_gps_connected [OF set_gps_info_connected [of data s], of evs]
    by (cases "set_gps_info data s") (auto split: option.splits)
  from arrival set_gps_info_connected [of data s] step_gps_connected [of ev s s1 outs]
    run_gps_connected [of s evs]
  show ?thesis
    by blast
qed

theorem C10_gps_connected_monotone_witness:
  "gps_connected (GPS_msg (snd (set_gps_info None example_node)))
   \<and> status_step (Timer (example_tick 1 10)) (snd (set_gps_info None example_node))
     = Inr (tick_state (example_tick 1 10) (snd (set_gps_info None example_node)),
            [Print_sensors_failed,
             Pub_gps \<lparr>gps_connected = True, gps_fix = False, num_satellites = 0,
                      horizontal_dilution = Finite 0, kmph = Finite 0,
                 gps_heading = Finite 0\<rparr>])
   \<and> gps_connected
       (GPS_msg (tick_state (example_tick 1 10) (snd (set_gps_info None example_node))))
   \<and> list_all reports_gps_connected
       (status_run [Timer (example_tick 1 10), Timer (example_tick 2 10)]
          (snd (set_gps_info None example_node)))"
proof -
  have flag: "gps_connected (GPS_msg (snd (set_gps_info None example_node)))"
    by (simp add: set_gps_info_def)
  have step: "status_step (Timer (example_tick 1 10)) (snd (set_gps_info None example_node))
     = Inr (tick_state (example_tick 1 10) (snd (set_gps_info None example_node)),
            [Print_sensors_failed,
             Pub_gps \<lparr>gps_connected = True, gps_fix = False, num_satellites = 0,
                      horizontal_dilution = Finite 0, kmph = Finite 0,
                 gps_heading = Finite 0\<rparr>])"
    by (simp add: status_main_loop_tick tick_outputs_eq condition_eqs)
       (simp add: set_gps_info_def example_node_eq)
  from C10_gps_connected_monotone
         [of None example_node
             "[Timer (example_tick 1 10), Timer (example_tick 2 10)]"
             "Timer (example_tick 1 10)"
             "tick_state (example_tick 1 10) (snd (set_gps_info None example_node))"
             "[Print_sensors_failed,
               Pub_gps \<lparr>gps_connected = True, gps_fix = False, num_satellites = 0,
                        horizontal_dilution = Finite 0, kmph = Finite 0,
                 gps_heading = Finite 0\<rparr>]"]
       C10_gps_connected_monotone
         [of None "snd (set_gps_info None example_node)"
             "[Timer (example_tick 1 10), Timer (example_tick 2 10)]"
             "Timer (example_tick 1 10)"
             "tick_state (example_tick 1 10) (snd (set_gps_info None example_node))"
             "[Print_sensors_failed,
               Pub_gps \<lparr>gps_connected = True, gps_fix = False, num_satellites = 0,
                        horizontal_dilution = Finite 0, kmph = Finite 0,
                 gps_heading = Finite 0\<rparr>]"]
       flag step
  show ?thesis
    by blast
qed

end
